theory Spec2Isabelle
  imports Main "HOL-Library.Word"
begin

section \<open>The ONNX importer of Glow (lib/Importer/ONNX.cpp)\<close>

text \<open>
  A shallow embedding of the ONNX model loader. Every function of ONNX.cpp is a HOL
  function of the same name. Conventions:
  \<^item> \<open>size_t\<close> and the protobuf \<open>int64\<close> attribute values are 64-bit words (the
    conversion between the two keeps the bit pattern), \<open>int\<close> and \<open>unsigned\<close> locals
    are 32-bit words, a \<open>float\<close> is its 32-bit pattern (floats are only copied);
  \<^item> a failing \<open>assert\<close> or \<open>GLOW_ASSERT\<close>, a null attribute pointer that is
    dereferenced and a read past the end of a vector, an ArrayRef or a repeated field
    abort the load: the function returns \<open>Inl\<close> of an \<open>error\<close> that carries the
    message of the source;
  \<^item> the members of the loader object are the fields of the record \<open>Loader\<close>, and a
    member function takes the loader and returns the updated one.
\<close>

subsection \<open>Machine types and failures\<close>

type_synonym int64 = "64 word"
type_synonym size_t = "64 word"
type_synonym float32 = "32 word"
type_synonym byte = "8 word"

datatype error =
    VersionError string
  | UnsupportedTensorKind string
  | UnsupportedAttributeShape string
  | ShapeInvariantViolation string
  | UsageError string
  | FormatError string

fun and_then :: "error + 'a \<Rightarrow> ('a \<Rightarrow> error + 'b) \<Rightarrow> error + 'b" where
  "and_then (Inl e) f = Inl e"
| "and_then (Inr x) f = f x"

text \<open>\<open>xs[i]\<close> on a vector, an ArrayRef or a repeated protobuf field.\<close>

definition at :: "'a list \<Rightarrow> nat \<Rightarrow> error + 'a" where
  "at xs i = (if i < length xs then Inr (xs ! i) else Inl (UsageError ''index out of range''))"

subsection \<open>The protobuf messages (onnx.pb.h)\<close>

datatype TensorProto_DataType =
    UNDEFINED | FLOAT | UINT8 | INT8 | UINT16 | INT16 | INT32 | INT64 | STRING | BOOL
  | FLOAT16 | DOUBLE | UINT32 | UINT64 | COMPLEX64 | COMPLEX128

record TensorProto =
  tensor_name :: string
  dims :: "int64 list"
  data_type :: TensorProto_DataType
  float_data :: "float32 list"
  int64_data :: "int64 list"
  raw_data :: "byte list option"

text \<open>
  Modelled from the spec: an attribute is a tagged value, one of int, float, string,
  int-array and tensor, keyed by its name within a node (the message type
  \<open>onnx::AttributeProto\<close> is declared in the generated header).
\<close>

datatype AttributeValue =
    AttrInt int64
  | AttrFloat float32
  | AttrString string
  | AttrInts "int64 list"
  | AttrTensor TensorProto

type_synonym AttributeProto = "string \<times> AttributeValue"

record NodeProto =
  op_type :: string
  op_name :: string
  node_input :: "string list"
  node_output :: "string list"
  attribute :: "AttributeProto list"

record ValueInfoProto =
  value_name :: string
  elem_type :: TensorProto_DataType
  shape_dim :: "int64 list"

record GraphProto =
  node :: "NodeProto list"
  graph_input :: "ValueInfoProto list"
  initializer :: "TensorProto list"
  graph_output :: "ValueInfoProto list"

record OperatorSetIdProto =
  domain :: "string option"
  version :: int

record ModelProto =
  ir_version :: int
  opset_import :: "OperatorSetIdProto list"
  graph :: GraphProto

subsection \<open>Tensors (glow/Base/Tensor.h)\<close>

datatype ElemKind = FloatTy | IndexTy

datatype Payload = FloatData "float32 list" | IndexData "size_t list"

record Tensor =
  tensor_dims :: "size_t list"
  payload :: Payload

text \<open>
  Modelled from the spec: the tensor collaborator is a typed buffer with a shape, raw
  byte access, element-wise handle access and copy, transpose and zero-fill operations;
  a newly allocated buffer is shaped per \<open>dims\<close>, that is it holds the product of the
  dimensions many elements, and it is zero-filled. \<open>Tensor::reset\<close>, \<open>Tensor::size\<close>,
  \<open>Handle::raw\<close> and \<open>Tensor::transpose\<close> are declared in Tensor.h.
\<close>

definition tensor_size :: "size_t list \<Rightarrow> nat" where
  "tensor_size ds = prod_list (map unat ds)"

definition reset :: "ElemKind \<Rightarrow> size_t list \<Rightarrow> Tensor" where
  "reset k ds =
     \<lparr>tensor_dims = ds,
      payload = (case k of FloatTy \<Rightarrow> FloatData (replicate (tensor_size ds) 0)
                         | IndexTy \<Rightarrow> IndexData (replicate (tensor_size ds) 0))\<rparr>"

definition getElementType :: "Tensor \<Rightarrow> ElemKind" where
  "getElementType T = (case payload T of FloatData _ \<Rightarrow> FloatTy | IndexData _ \<Rightarrow> IndexTy)"

text \<open>
  The loop \<open>for (auto f : data) TH.raw(i++) = f;\<close> on the buffer \<open>buf\<close>. The loop has no
  test of the size and no way to fail. A write at an index within the buffer sets that
  element; a write past the end changes no element of the buffer (the memory it changes
  is outside the tensor, and outside this model).
\<close>

fun raw_store :: "'a list \<Rightarrow> nat \<Rightarrow> 'a list \<Rightarrow> 'a list" where
  "raw_store buf i [] = buf"
| "raw_store buf i (f # fs) =
     raw_store (if i < length buf then buf[i := f] else buf) (Suc i) fs"

text \<open>
  \<open>inStream.read(buffer, n)\<close> on a zeroed buffer of \<open>n\<close> bytes: the first \<open>n\<close> bytes of
  the blob, and zeros where the blob is shorter. The bytes are read as little-endian
  elements.
\<close>

definition read_bytes :: "byte list \<Rightarrow> nat \<Rightarrow> byte list" where
  "read_bytes blob n = take n blob @ replicate (n - length blob) 0"

fun le_word :: "byte list \<Rightarrow> 'a::len word" where
  "le_word [] = 0"
| "le_word (b # bs) = ucast b + 256 * le_word bs"

fun chunks :: "nat \<Rightarrow> nat \<Rightarrow> byte list \<Rightarrow> byte list list" where
  "chunks w 0 bs = []"
| "chunks w (Suc n) bs = take w bs # chunks w n (drop w bs)"

definition read_elems :: "nat \<Rightarrow> nat \<Rightarrow> byte list \<Rightarrow> 'a::len word list" where
  "read_elems w n blob = map le_word (chunks w n (read_bytes blob (n * w)))"

text \<open>\<open>Tensor::transpose(dest, shuffle)\<close>: axis \<open>i\<close> of the result is axis \<open>shuffle[i]\<close> of
  the tensor.\<close>

fun unflatten :: "nat list \<Rightarrow> nat \<Rightarrow> nat list" where
  "unflatten [] j = []"
| "unflatten (d # ds) j = (j div prod_list ds) mod d # unflatten ds (j mod prod_list ds)"

fun flatten :: "nat list \<Rightarrow> nat list \<Rightarrow> nat" where
  "flatten (d # ds) (c # cs) = c * prod_list ds + flatten ds cs"
| "flatten _ _ = 0"

definition shuffled :: "'a list \<Rightarrow> nat list \<Rightarrow> 'a list" where
  "shuffled xs shuffle = map (\<lambda>i. xs ! i) shuffle"

definition unshuffled :: "nat list \<Rightarrow> nat list \<Rightarrow> nat list" where
  "unshuffled cs shuffle =
     map (\<lambda>a. case List.find (\<lambda>p. fst p = a) (zip shuffle cs) of
                 Some p \<Rightarrow> snd p | None \<Rightarrow> 0) [0..<length cs]"

definition transpose_elems :: "nat list \<Rightarrow> nat list \<Rightarrow> 'a list \<Rightarrow> 'a list" where
  "transpose_elems ds shuffle xs =
     map (\<lambda>j. xs ! flatten ds (unshuffled (unflatten (shuffled ds shuffle) j) shuffle))
       [0..<prod_list ds]"

definition transposed :: "Tensor \<Rightarrow> nat list \<Rightarrow> Tensor" where
  "transposed T shuffle =
     \<lparr>tensor_dims = shuffled (tensor_dims T) shuffle,
      payload = (case payload T of
          FloatData xs \<Rightarrow> FloatData (transpose_elems (map unat (tensor_dims T)) shuffle xs)
        | IndexData xs \<Rightarrow> IndexData (transpose_elems (map unat (tensor_dims T)) shuffle xs))\<rparr>"

definition valid_shuffle :: "nat list \<Rightarrow> nat \<Rightarrow> bool" where
  "valid_shuffle shuffle rank =
     (length shuffle = rank \<and> list_all (\<lambda>i. i < rank) shuffle)"

definition transpose_tensor :: "Tensor \<Rightarrow> nat list \<Rightarrow> error + Tensor" where
  "transpose_tensor T shuffle =
     (if valid_shuffle shuffle (length (tensor_dims T)) then Inr (transposed T shuffle)
      else Inl (ShapeInvariantViolation ''Invalid transpose shuffle''))"

subsection \<open>loadTensor\<close>

text \<open>
  \<open>T->reset(kind, dim)\<close> gives the tensor \<open>T\<close> a zeroed buffer for \<open>dim\<close>; the handle
  loop then writes the elements of the record into that buffer, from index 0 on, and
  the blob branch reads \<open>T->size()\<close> elements of 4 or 8 bytes from the blob. The branch
  for INT64 records follows the one for FLOAT records, as the spec has it (identical
  two-path rule).
\<close>

definition loadTensor :: "TensorProto \<Rightarrow> error + Tensor" where
  "loadTensor in' =
     (let dim = dims in' in
      if data_type in' = FLOAT then
        (let T = reset FloatTy dim in
         if length (float_data in') > 0 then
           Inr (T\<lparr>payload :=
                  FloatData (raw_store (replicate (tensor_size dim) 0) 0 (float_data in'))\<rparr>)
         else (case raw_data in' of
             Some blob \<Rightarrow> Inr (T\<lparr>payload := FloatData (read_elems 4 (tensor_size dim) blob)\<rparr>)
           | None \<Rightarrow> Inl (UnsupportedTensorKind ''Unsupported Tensor format.'')))
      else if data_type in' = INT64 then
        (let T = reset IndexTy dim in
         if length (int64_data in') > 0 then
           Inr (T\<lparr>payload :=
                  IndexData (raw_store (replicate (tensor_size dim) 0) 0 (int64_data in'))\<rparr>)
         else (case raw_data in' of
             Some blob \<Rightarrow> Inr (T\<lparr>payload := IndexData (read_elems 8 (tensor_size dim) blob)\<rparr>)
           | None \<Rightarrow> Inl (UnsupportedTensorKind ''Unsupported Tensor format.'')))
      else Inl (UnsupportedTensorKind ''Only float and index tensors are supported''))"

subsection \<open>The attribute dictionary\<close>

type_synonym ArgumentDictionaryTy = "string \<rightharpoonup> AttributeValue"

text \<open>The loop of \<open>loadArgumentMap\<close>: \<open>dict[arg.name()] = &arg\<close>, a later entry replaces
  an earlier one of the same name.\<close>

fun loadArgumentMap_loop ::
  "ArgumentDictionaryTy \<Rightarrow> AttributeProto list \<Rightarrow> ArgumentDictionaryTy" where
  "loadArgumentMap_loop dict [] = dict"
| "loadArgumentMap_loop dict (arg # args) =
     loadArgumentMap_loop (dict(fst arg \<mapsto> snd arg)) args"

definition loadArgumentMap :: "NodeProto \<Rightarrow> ArgumentDictionaryTy" where
  "loadArgumentMap op = loadArgumentMap_loop Map.empty (attribute op)"

text \<open>
  \<open>dict[key]\<close> yields the stored attribute pointer, and a null pointer for a key that is
  not in the dictionary; every use in this file dereferences the result at once.
\<close>

definition deref :: "ArgumentDictionaryTy \<Rightarrow> string \<Rightarrow> error + AttributeValue" where
  "deref dict key =
     (case dict key of Some a \<Rightarrow> Inr a
      | None \<Rightarrow> Inl (UsageError (''null attribute: '' @ key)))"

text \<open>
  Modelled from the spec: the typed accessors \<open>loadInt\<close>, \<open>loadFloat\<close>, \<open>loadStr\<close>,
  \<open>getShape\<close> and \<open>getConstantArrayHead\<close> (declared in the loader's headers) fail with a
  type mismatch when the stored tag differs from the requested one; the head of an
  empty int-array does not exist.
\<close>

definition loadInt :: "AttributeValue \<Rightarrow> error + int64" where
  "loadInt a = (case a of AttrInt i \<Rightarrow> Inr i
                | _ \<Rightarrow> Inl (UnsupportedAttributeShape ''Node has no Int value''))"

definition loadFloat :: "AttributeValue \<Rightarrow> error + float32" where
  "loadFloat a = (case a of AttrFloat f \<Rightarrow> Inr f
                  | _ \<Rightarrow> Inl (UnsupportedAttributeShape ''Node has no float value''))"

definition loadStr :: "AttributeValue \<Rightarrow> error + string" where
  "loadStr a = (case a of AttrString s \<Rightarrow> Inr s
                | _ \<Rightarrow> Inl (UnsupportedAttributeShape ''Node has no str value''))"

definition getShape :: "AttributeValue \<Rightarrow> error + size_t list" where
  "getShape a = (case a of AttrInts xs \<Rightarrow> Inr xs
                 | _ \<Rightarrow> Inl (UnsupportedAttributeShape ''Node has no ints value''))"

definition getConstantArrayHead :: "AttributeValue \<Rightarrow> error + size_t" where
  "getConstantArrayHead a =
     and_then (getShape a)
       (\<lambda>dim. case dim of [] \<Rightarrow> Inl (UnsupportedAttributeShape ''Empty argument'')
                | d # _ \<Rightarrow> Inr d)"

subsection \<open>getPads\<close>

definition getPads :: "ArgumentDictionaryTy \<Rightarrow> error + size_t list" where
  "getPads dict =
     (case dict ''pads'' of
        Some a \<Rightarrow> getShape a
      | None \<Rightarrow>
         (case dict ''auto_pad'' of
            Some a \<Rightarrow>
              and_then (loadStr a)
                (\<lambda>padStr. if padStr = ''VALID'' then Inr [0, 0, 0, 0]
                   else Inl (UnsupportedAttributeShape ''only auto_pad==VALID is supported''))
          | None \<Rightarrow> Inr [0, 0, 0, 0]))"

subsection \<open>The graph under construction (glow/Graph)\<close>

text \<open>
  Modelled from the spec: the IR builder is an external collaborator with the
  capabilities create-parameter(name, tensor), create-op(kind, inputs, attributes) and
  create-terminal-save(name, value). A node records the call that created it and the shape
  of its result; the last argument of an operator node is that shape. \<open>OtherNode\<close>
  stands for the nodes of the operators that the common operator loader creates.
\<close>

datatype Node =
    Variable string Tensor
  | TransposeNode string Node "nat list" "size_t list"
  | ConvolutionNode string Node Node Node size_t size_t "size_t list" size_t "size_t list"
  | PoolMaxNode string Node size_t size_t "size_t list" "size_t list"
  | PoolAvgNode string Node size_t size_t "size_t list" "size_t list"
  | SqueezeNode string Node "size_t list" "size_t list"
  | ExpandDimsNode string Node "size_t list" "size_t list"
  | BatchNormalizationNode string Node Tensor Tensor Tensor Tensor nat float32 "size_t list"
  | ConcatNode string "Node list" int64 "size_t list"
  | MatMulNode string Node Node "size_t list"
  | BroadcastNode string Node "size_t list" "32 word"
  | AddNode string Node Node "size_t list"
  | SaveNode string Node
  | OtherNode string string "Node list" "size_t list"

fun dims_of :: "Node \<Rightarrow> size_t list" where
  "dims_of (Variable _ T) = tensor_dims T"
| "dims_of (TransposeNode _ _ _ ds) = ds"
| "dims_of (ConvolutionNode _ _ _ _ _ _ _ _ ds) = ds"
| "dims_of (PoolMaxNode _ _ _ _ _ ds) = ds"
| "dims_of (PoolAvgNode _ _ _ _ _ ds) = ds"
| "dims_of (SqueezeNode _ _ _ ds) = ds"
| "dims_of (ExpandDimsNode _ _ _ ds) = ds"
| "dims_of (BatchNormalizationNode _ _ _ _ _ _ _ _ ds) = ds"
| "dims_of (ConcatNode _ _ _ ds) = ds"
| "dims_of (MatMulNode _ _ _ ds) = ds"
| "dims_of (BroadcastNode _ _ ds _) = ds"
| "dims_of (AddNode _ _ _ ds) = ds"
| "dims_of (SaveNode _ n) = dims_of n"
| "dims_of (OtherNode _ _ _ ds) = ds"

record Function =
  nodes :: "Node list"
  vars :: "Node list"

definition NCHW2NHWC :: "nat list" where
  "NCHW2NHWC = [0, 2, 3, 1]"

definition NHWC2NCHW :: "nat list" where
  "NHWC2NCHW = [0, 3, 1, 2]"

subsection \<open>The loader object\<close>

text \<open>
  \<open>outs\<close> is what the loader has printed with \<open>unexpectedNodeError\<close>: the message and
  the node, whose text names its operator type and its instance name.
\<close>

record Loader =
  irVersion :: int
  opsetVersion :: int
  tensors :: "string \<rightharpoonup> Tensor"
  nodeByName :: "string \<rightharpoonup> Node"
  outputsByName :: "string \<rightharpoonup> Node"
  G :: Function
  outs :: "(string \<times> NodeProto) list"

subsection \<open>Version resolution\<close>

text \<open>
  Modelled from the spec: \<open>irVersion\<close> and \<open>opsetVersion\<close> are the integer version fields
  of the loader (the class is declared in glow/Importer/ONNX.h).
\<close>

definition getBroadcast :: "Loader \<Rightarrow> ArgumentDictionaryTy \<Rightarrow> error + bool" where
  "getBroadcast L dict =
     (if opsetVersion L > 6 then Inr True
      else (case dict ''broadcast'' of
              None \<Rightarrow> Inr False
            | Some a \<Rightarrow> and_then (loadInt a) (\<lambda>i. Inr (i = 1))))"

text \<open>The loop of \<open>setVersion\<close> over \<open>MP.opset_import()\<close>, with its \<open>break\<close>.\<close>

fun setVersion_loop :: "int \<Rightarrow> OperatorSetIdProto list \<Rightarrow> int" where
  "setVersion_loop v [] = v"
| "setVersion_loop v (imp # imps) =
     (if domain imp = None \<or> domain imp = Some [] then version imp
      else setVersion_loop v imps)"

definition setVersion :: "Loader \<Rightarrow> ModelProto \<Rightarrow> error + Loader" where
  "setVersion L MP =
     (let L1 = L\<lparr>irVersion := ir_version MP, opsetVersion := 0\<rparr> in
      if \<not> irVersion L1 \<ge> 3 then
        Inl (VersionError
          ''This ONNX model with ir_version < 3 is too old to be supported.'')
      else
        (let L2 = L1\<lparr>opsetVersion := setVersion_loop (opsetVersion L1) (opset_import MP)\<rparr> in
         if opsetVersion L2 > 0 then Inr L2
         else Inl (VersionError ''The opset of this ONNX model is not supported.'')))"

text \<open>
  \<open>loadProto\<close>: the protobuf decoder is outside this file, so the model takes what
  \<open>ParseFromCodedStream\<close> yields: its flag and the decoded message. For a file, \<open>None\<close>
  is a path that cannot be opened.
\<close>

definition loadProto ::
  "Loader \<Rightarrow> bool \<times> ModelProto \<Rightarrow> error + (bool \<times> GraphProto \<times> Loader)" where
  "loadProto L parsed =
     (let parseNet = fst parsed; MP = snd parsed; net = graph MP in
      and_then (setVersion L MP) (\<lambda>L'. Inr (parseNet, net, L')))"

definition loadProto_file ::
  "Loader \<Rightarrow> (bool \<times> ModelProto) option \<Rightarrow> error + (bool \<times> GraphProto \<times> Loader)" where
  "loadProto_file L ff =
     (case ff of
        None \<Rightarrow> Inl (FormatError ''Can not find the model or network files.'')
      | Some parsed \<Rightarrow> loadProto L parsed)"

subsection \<open>The IR builder and the name tables\<close>

text \<open>
  Modelled from the spec: the functions of this subsection are those of the IR-builder
  collaborator (\<open>Graph.h\<close>) and of the base classes of the loader (\<open>ProtobufLoader\<close>,
  \<open>CommonOperatorLoader\<close>), none of which is defined in ONNX.cpp. A value-name is
  resolved to a node output bound earlier, else to a fresh parameter node made from the
  table tensor of that name, else it is an error. The output size of a convolution or a
  pool is the standard one: \<open>(in + pad_begin + pad_end - kernel) / stride + 1\<close>.
\<close>

definition insertNode :: "Loader \<Rightarrow> Node \<Rightarrow> Node \<times> Loader" where
  "insertNode L n = (n, L\<lparr>G := (G L)\<lparr>nodes := nodes (G L) @ [n]\<rparr>\<rparr>)"

definition createVariable :: "Loader \<Rightarrow> string \<Rightarrow> Tensor \<Rightarrow> Node \<times> Loader" where
  "createVariable L name T =
     (Variable name T, L\<lparr>G := (G L)\<lparr>vars := vars (G L) @ [Variable name T]\<rparr>\<rparr>)"

definition getTensorByName :: "Loader \<Rightarrow> string \<Rightarrow> error + Tensor" where
  "getTensorByName L name =
     (case tensors L name of
        Some T \<Rightarrow> Inr T
      | None \<Rightarrow> Inl (UsageError ''There is no tensor registered with this name.''))"

definition getNodeByName :: "Loader \<Rightarrow> string \<Rightarrow> error + Node" where
  "getNodeByName L name =
     (case nodeByName L name of
        Some n \<Rightarrow> Inr n
      | None \<Rightarrow> Inl (ShapeInvariantViolation ''Could not find a node with this name.''))"

definition getOrCreateVariableByName :: "Loader \<Rightarrow> string \<Rightarrow> error + (Node \<times> Loader)" where
  "getOrCreateVariableByName L name =
     (case nodeByName L name of
        Some n \<Rightarrow> Inr (n, L)
      | None \<Rightarrow>
          and_then (getTensorByName L name)
            (\<lambda>T. let (V, L1) = createVariable L name T
                 in Inr (V, L1\<lparr>nodeByName := (nodeByName L1)(name \<mapsto> V)\<rparr>)))"

fun addNodeAsOutput_loop :: "(string \<rightharpoonup> Node) \<Rightarrow> string list \<Rightarrow> Node \<Rightarrow> (string \<rightharpoonup> Node)" where
  "addNodeAsOutput_loop m [] R = m"
| "addNodeAsOutput_loop m (out # rest) R = addNodeAsOutput_loop (m(out \<mapsto> R)) rest R"

definition addNodeAsOutput :: "Loader \<Rightarrow> NodeProto \<Rightarrow> Node \<Rightarrow> Loader" where
  "addNodeAsOutput L op R =
     L\<lparr>nodeByName := addNodeAsOutput_loop (nodeByName L) (node_output op) R\<rparr>"

definition loadOperatorName :: "NodeProto \<Rightarrow> string" where
  "loadOperatorName op =
     (if op_name op \<noteq> [] then op_name op
      else (case node_output op of out # _ \<Rightarrow> out | [] \<Rightarrow> op_type op))"

definition unexpectedNodeError :: "Loader \<Rightarrow> NodeProto \<Rightarrow> string \<Rightarrow> Loader" where
  "unexpectedNodeError L op message = L\<lparr>outs := outs L @ [(message, op)]\<rparr>"

definition createTranspose ::
  "Loader \<Rightarrow> string \<Rightarrow> Node \<Rightarrow> nat list \<Rightarrow> error + (Node \<times> Loader)" where
  "createTranspose L name n shuffle =
     (if valid_shuffle shuffle (length (dims_of n))
      then Inr (insertNode L (TransposeNode name n shuffle (shuffled (dims_of n) shuffle)))
      else Inl (ShapeInvariantViolation ''Invalid transpose shuffle''))"

definition ShapeNHWC :: "size_t list \<Rightarrow> error + (size_t \<times> size_t \<times> size_t \<times> size_t)" where
  "ShapeNHWC shape =
     (case shape of
        [n, h, w, c] \<Rightarrow> Inr (n, h, w, c)
      | _ \<Rightarrow> Inl (ShapeInvariantViolation ''Invalid shape''))"

definition calculateConvPoolOutputDims ::
  "size_t \<Rightarrow> size_t \<Rightarrow> size_t \<Rightarrow> size_t \<Rightarrow> size_t list \<Rightarrow> error + (size_t \<times> size_t)" where
  "calculateConvPoolOutputDims sx sy filterSize stride pads =
     and_then (at pads 0) (\<lambda>pad_t.
     and_then (at pads 1) (\<lambda>pad_l.
     and_then (at pads 2) (\<lambda>pad_b.
     and_then (at pads 3) (\<lambda>pad_r.
       if stride = 0 then Inl (UsageError ''division by zero'')
       else Inr ((sx + pad_t + pad_b - filterSize) div stride + 1,
                 (sy + pad_l + pad_r - filterSize) div stride + 1)))))"

definition createConv ::
  "Loader \<Rightarrow> string \<Rightarrow> Node \<Rightarrow> Node \<Rightarrow> Node \<Rightarrow> size_t list \<Rightarrow> size_t \<Rightarrow> size_t \<Rightarrow>
   size_t list \<Rightarrow> size_t \<Rightarrow> Node \<times> Loader" where
  "createConv L name inp filt bias outTy kernel' stride pads group' =
     insertNode L (ConvolutionNode name inp filt bias kernel' stride pads group' outTy)"

definition poolOutputDims ::
  "Node \<Rightarrow> size_t \<Rightarrow> size_t \<Rightarrow> size_t list \<Rightarrow> error + size_t list" where
  "poolOutputDims inp kernel' stride pads =
     and_then (ShapeNHWC (dims_of inp)) (\<lambda>(n, h, w, c).
     and_then (calculateConvPoolOutputDims h w kernel' stride pads) (\<lambda>(oh, ow).
       Inr [n, oh, ow, c]))"

definition createPoolMax ::
  "Loader \<Rightarrow> string \<Rightarrow> Node \<Rightarrow> size_t \<Rightarrow> size_t \<Rightarrow> size_t list \<Rightarrow> error + (Node \<times> Loader)" where
  "createPoolMax L name inp kernel' stride pads =
     and_then (poolOutputDims inp kernel' stride pads)
       (\<lambda>ds. Inr (insertNode L (PoolMaxNode name inp kernel' stride pads ds)))"

definition createPoolAvg ::
  "Loader \<Rightarrow> string \<Rightarrow> Node \<Rightarrow> size_t \<Rightarrow> size_t \<Rightarrow> size_t list \<Rightarrow> error + (Node \<times> Loader)" where
  "createPoolAvg L name inp kernel' stride pads =
     and_then (poolOutputDims inp kernel' stride pads)
       (\<lambda>ds. Inr (insertNode L (PoolAvgNode name inp kernel' stride pads ds)))"

definition nth0 :: "size_t list \<Rightarrow> nat \<Rightarrow> size_t" where
  "nth0 ds i = (if i < length ds then ds ! i else 0)"

definition createSqueeze :: "Loader \<Rightarrow> string \<Rightarrow> Node \<Rightarrow> size_t list \<Rightarrow> Node \<times> Loader" where
  "createSqueeze L name inp axes =
     insertNode L (SqueezeNode name inp axes
       (map snd (filter (\<lambda>p. \<not> List.member axes (of_nat (fst p)))
          (zip [0..<length (dims_of inp)] (dims_of inp)))))"

definition createExpandDims :: "Loader \<Rightarrow> string \<Rightarrow> Node \<Rightarrow> size_t list \<Rightarrow> Node \<times> Loader" where
  "createExpandDims L name inp axes =
     insertNode L (ExpandDimsNode name inp axes
       (fold (\<lambda>a ds. take (unat a) ds @ [1] @ drop (unat a) ds) (sort axes) (dims_of inp)))"

definition createBatchNormalization ::
  "Loader \<Rightarrow> string \<Rightarrow> Node \<Rightarrow> Tensor \<Rightarrow> Tensor \<Rightarrow> Tensor \<Rightarrow> Tensor \<Rightarrow> nat \<Rightarrow> float32 \<Rightarrow>
   Node \<times> Loader" where
  "createBatchNormalization L name inp scale bias mean var channelIdx epsilon =
     insertNode L
       (BatchNormalizationNode name inp scale bias mean var channelIdx epsilon (dims_of inp))"

definition createConcat :: "Loader \<Rightarrow> string \<Rightarrow> Node list \<Rightarrow> int64 \<Rightarrow> Node \<times> Loader" where
  "createConcat L name inputs axis =
     insertNode L (ConcatNode name inputs axis
       (case inputs of
          [] \<Rightarrow> []
        | n # _ \<Rightarrow> (dims_of n)
            [unat axis := sum_list (map (\<lambda>m. nth0 (dims_of m) (unat axis)) inputs)]))"

definition createMatMul :: "Loader \<Rightarrow> string \<Rightarrow> Node \<Rightarrow> Node \<Rightarrow> Node \<times> Loader" where
  "createMatMul L name A B =
     insertNode L (MatMulNode name A B [nth0 (dims_of A) 0, nth0 (dims_of B) 1])"

definition createBroadcast ::
  "Loader \<Rightarrow> string \<Rightarrow> Node \<Rightarrow> size_t list \<Rightarrow> 32 word \<Rightarrow> Node \<times> Loader" where
  "createBroadcast L name inp newShape axis =
     insertNode L (BroadcastNode name inp newShape axis)"

definition createAdd :: "Loader \<Rightarrow> string \<Rightarrow> Node \<Rightarrow> Node \<Rightarrow> Node \<times> Loader" where
  "createAdd L name A B = insertNode L (AddNode name A B (dims_of A))"

definition createSave :: "Loader \<Rightarrow> string \<Rightarrow> Node \<Rightarrow> Node \<times> Loader" where
  "createSave L name r = insertNode L (SaveNode name r)"

subsection \<open>loadOperator\<close>

text \<open>
  \<open>tryLoadCommonOperator\<close> belongs to the base class \<open>CommonOperatorLoader\<close>, which is
  not part of ONNX.cpp: \<open>loadOperator\<close> takes it as a parameter. It answers whether it
  has loaded the node, and returns the loader as it has left it.
\<close>

type_synonym CommonOperators =
  "string \<Rightarrow> NodeProto \<Rightarrow> ArgumentDictionaryTy \<Rightarrow> Loader \<Rightarrow> error + (bool \<times> Loader)"

text \<open>
  Each branch of \<open>loadOperator\<close> is a function of its own, named after the operator;
  a branch returns the loader, and \<open>loadOperator\<close> answers true after it.
\<close>

definition load_Constant :: "Loader \<Rightarrow> NodeProto \<Rightarrow> ArgumentDictionaryTy \<Rightarrow> error + Loader" where
  "load_Constant L op dict =
     and_then (at (node_output op) 0) (\<lambda>name.
       if tensors L name \<noteq> None then Inr L
       else
         and_then (deref dict ''value'') (\<lambda>v.
           case v of
             AttrTensor t \<Rightarrow>
               and_then (loadTensor t) (\<lambda>T. Inr (L\<lparr>tensors := (tensors L)(name \<mapsto> T)\<rparr>))
           | _ \<Rightarrow> Inl (UnsupportedAttributeShape ''Only Tensor type constants are supported.'')))"

text \<open>\<open>dict.count("strides") ? getConstantArrayHead(dict["strides"]) : 1\<close>, stored in an
  \<open>int\<close>.\<close>

definition load_stride :: "ArgumentDictionaryTy \<Rightarrow> error + 32 word" where
  "load_stride dict =
     (case dict ''strides'' of
        Some a \<Rightarrow> and_then (getConstantArrayHead a) (\<lambda>s. Inr (ucast s))
      | None \<Rightarrow> Inr 1)"

text \<open>\<open>dict.count("group") ? loadInt(dict["group"]) : 1\<close>, stored in an \<open>unsigned\<close>.\<close>

definition load_group :: "ArgumentDictionaryTy \<Rightarrow> error + 32 word" where
  "load_group dict =
     (case dict ''group'' of
        Some a \<Rightarrow> and_then (loadInt a) (\<lambda>g. Inr (ucast g))
      | None \<Rightarrow> Inr 1)"

text \<open>The kernel of a convolution: the head of \<open>kernel_shape\<close>, or the side of the square
  filter; an \<open>unsigned\<close>.\<close>

definition load_kernel :: "ArgumentDictionaryTy \<Rightarrow> Node \<Rightarrow> error + 32 word" where
  "load_kernel dict filt =
     (case dict ''kernel_shape'' of
        Some a \<Rightarrow> and_then (getConstantArrayHead a) (\<lambda>k. Inr (ucast k))
      | None \<Rightarrow>
          and_then (at (dims_of filt) 1) (\<lambda>d1.
          and_then (at (dims_of filt) 2) (\<lambda>d2.
            if d1 = d2 then Inr (ucast d1)
            else Inl (ShapeInvariantViolation ''Only square kernels are supported''))))"

text \<open>The bias of a convolution: zeros of the length \<open>depth\<close>, or the tensor that the
  table holds under the name of the third input.\<close>

definition conv_bias :: "Loader \<Rightarrow> NodeProto \<Rightarrow> size_t \<Rightarrow> Tensor" where
  "conv_bias L op depth =
     (let biasTensor = reset FloatTy [depth] in
      if length (node_input op) > 2
      then (case tensors L (node_input op ! 2) of
              Some b \<Rightarrow> b
            | None \<Rightarrow> biasTensor)
      else biasTensor)"

definition load_Conv ::
  "Loader \<Rightarrow> NodeProto \<Rightarrow> ArgumentDictionaryTy \<Rightarrow> string \<Rightarrow> error + Loader" where
  "load_Conv L op dict opName =
     and_then (load_stride dict) (\<lambda>stride.
     and_then (load_group dict) (\<lambda>group'.
     and_then (getPads dict) (\<lambda>pads.
     and_then (at (node_input op) 0) (\<lambda>in0.
     and_then (getOrCreateVariableByName L in0) (\<lambda>(inp, L1).
     and_then (at (node_input op) 1) (\<lambda>in1.
     and_then (getTensorByName L1 in1) (\<lambda>w.
     and_then (transpose_tensor w NCHW2NHWC) (\<lambda>wtag.
     and_then (at (tensor_dims wtag) 0) (\<lambda>depth.
     let (filt, L2) = createVariable L1 ''conv.filter'' wtag in
     and_then (load_kernel dict filt) (\<lambda>kernel'.
     let biasTensor = conv_bias L2 op depth;
         (bias, L3) = createVariable L2 ''conv.bias'' biasTensor in
     and_then (createTranspose L3 opName inp NCHW2NHWC) (\<lambda>(tr, L4).
     and_then (ShapeNHWC (dims_of tr)) (\<lambda>(n, h, w, c).
     and_then (calculateConvPoolOutputDims h w (ucast kernel') (scast stride) pads)
       (\<lambda>(oh, ow).
     let outDims = [n, oh, ow, depth];
         (nd, L5) = createConv L4 opName tr filt bias outDims (ucast kernel') (scast stride)
                      pads (ucast group') in
     and_then (createTranspose L5 opName nd NHWC2NCHW) (\<lambda>(N, L6).
       Inr (addNodeAsOutput L6 op N)))))))))))))))"

definition load_Pool ::
  "Loader \<Rightarrow> NodeProto \<Rightarrow> ArgumentDictionaryTy \<Rightarrow> string \<Rightarrow> string \<Rightarrow> error + Loader" where
  "load_Pool L op dict opName typeName =
     and_then (at (node_input op) 0) (\<lambda>in0.
     and_then (getOrCreateVariableByName L in0) (\<lambda>(inp, L1).
     and_then (load_stride dict) (\<lambda>stride.
     and_then (and_then (deref dict ''kernel_shape'') getConstantArrayHead) (\<lambda>kernel0.
     and_then (getPads dict) (\<lambda>pads.
     and_then (createTranspose L1 opName inp NCHW2NHWC) (\<lambda>(tr, L2).
     and_then (if dict ''global_pooling'' \<noteq> None then at (dims_of inp) 3
               else Inr kernel0) (\<lambda>kernel'.
     and_then (if typeName = ''MaxPool''
               then createPoolMax L2 opName tr kernel' (scast stride) pads
               else createPoolAvg L2 opName tr kernel' (scast stride) pads) (\<lambda>(nd, L3).
     and_then (createTranspose L3 opName nd NHWC2NCHW) (\<lambda>(N, L4).
       Inr (addNodeAsOutput L4 op N))))))))))"

definition load_GlobalAveragePool ::
  "Loader \<Rightarrow> NodeProto \<Rightarrow> ArgumentDictionaryTy \<Rightarrow> string \<Rightarrow> error + Loader" where
  "load_GlobalAveragePool L op dict opName =
     and_then (at (node_input op) 0) (\<lambda>in0.
     and_then (getOrCreateVariableByName L in0) (\<lambda>(inp, L1).
     and_then (load_stride dict) (\<lambda>stride.
     and_then (at (dims_of inp) 2) (\<lambda>d2.
     and_then (at (dims_of inp) 3) (\<lambda>d3.
       if d2 \<noteq> d3
       then Inl (ShapeInvariantViolation ''For the image, height == weight is required'')
       else
         (let kernel' = d2 in
          and_then (getPads dict) (\<lambda>pads.
          and_then (createTranspose L1 opName inp NCHW2NHWC) (\<lambda>(tr, L2).
          and_then (createPoolAvg L2 opName tr kernel' (scast stride) pads) (\<lambda>(nd, L3).
          and_then (createTranspose L3 opName nd NHWC2NCHW) (\<lambda>(N, L4).
            Inr (addNodeAsOutput L4 op N)))))))))))"

definition load_Squeeze ::
  "Loader \<Rightarrow> NodeProto \<Rightarrow> ArgumentDictionaryTy \<Rightarrow> string \<Rightarrow> error + Loader" where
  "load_Squeeze L op dict opName =
     and_then (at (node_input op) 0) (\<lambda>in0.
     and_then (getOrCreateVariableByName L in0) (\<lambda>(inp, L1).
     and_then (and_then (deref dict ''axes'') getShape) (\<lambda>axes.
       let (nd, L2) = createSqueeze L1 opName inp axes in
       Inr (addNodeAsOutput L2 op nd))))"

definition load_Unsqueeze ::
  "Loader \<Rightarrow> NodeProto \<Rightarrow> ArgumentDictionaryTy \<Rightarrow> string \<Rightarrow> error + Loader" where
  "load_Unsqueeze L op dict opName =
     and_then (at (node_input op) 0) (\<lambda>in0.
     and_then (getOrCreateVariableByName L in0) (\<lambda>(inp, L1).
     and_then (and_then (deref dict ''axes'') getShape) (\<lambda>axes.
       let (nd, L2) = createExpandDims L1 opName inp axes in
       Inr (addNodeAsOutput L2 op nd))))"

definition load_Dropout :: "Loader \<Rightarrow> NodeProto \<Rightarrow> error + Loader" where
  "load_Dropout L op =
     and_then (at (node_input op) 0) (\<lambda>in0.
     and_then (getOrCreateVariableByName L in0) (\<lambda>(inp, L1).
       Inr (addNodeAsOutput L1 op inp)))"

definition load_BatchNormalization ::
  "Loader \<Rightarrow> NodeProto \<Rightarrow> ArgumentDictionaryTy \<Rightarrow> string \<Rightarrow> error + Loader" where
  "load_BatchNormalization L op dict opName =
     and_then (at (node_input op) 0) (\<lambda>in0.
     and_then (getOrCreateVariableByName L in0) (\<lambda>(inp, L1).
     and_then (and_then (at (node_input op) 1) (getTensorByName L1)) (\<lambda>scale.
     and_then (and_then (at (node_input op) 2) (getTensorByName L1)) (\<lambda>bias.
     and_then (and_then (at (node_input op) 3) (getTensorByName L1)) (\<lambda>mean.
     and_then (and_then (at (node_input op) 4) (getTensorByName L1)) (\<lambda>var.
     and_then (case dict ''epsilon'' of
                 Some a \<Rightarrow> loadFloat a
               | None \<Rightarrow> Inr 0x3727C5AC) (\<lambda>epsilon.
       let (nd, L2) = createBatchNormalization L1 opName inp scale bias mean var 1 epsilon in
       Inr (addNodeAsOutput L2 op nd))))))))"

text \<open>The loop of the Concat branch: \<open>inputs.push_back(getOrCreateVariableByName(...))\<close>.\<close>

fun load_Concat_loop ::
  "Loader \<Rightarrow> string list \<Rightarrow> Node list \<Rightarrow> error + (Node list \<times> Loader)" where
  "load_Concat_loop L [] inputs = Inr (inputs, L)"
| "load_Concat_loop L (name # names) inputs =
     and_then (getOrCreateVariableByName L name)
       (\<lambda>(n, L1). load_Concat_loop L1 names (inputs @ [n]))"

definition load_Concat ::
  "Loader \<Rightarrow> NodeProto \<Rightarrow> ArgumentDictionaryTy \<Rightarrow> string \<Rightarrow> error + Loader" where
  "load_Concat L op dict opName =
     and_then (load_Concat_loop L (node_input op) []) (\<lambda>(inputs, L1).
     and_then (and_then (deref dict ''axis'') loadInt) (\<lambda>axis.
       let (nd, L2) = createConcat L1 opName inputs axis in
       Inr (addNodeAsOutput L2 op nd)))"

text \<open>\<open>dict.count(key) && loadInt(dict[key])\<close>.\<close>

definition load_flag :: "ArgumentDictionaryTy \<Rightarrow> string \<Rightarrow> error + bool" where
  "load_flag dict key =
     (case dict key of
        Some a \<Rightarrow> and_then (loadInt a) (\<lambda>i. Inr (i \<noteq> 0))
      | None \<Rightarrow> Inr False)"

definition load_Gemm ::
  "Loader \<Rightarrow> NodeProto \<Rightarrow> ArgumentDictionaryTy \<Rightarrow> string \<Rightarrow> error + Loader" where
  "load_Gemm L op dict opName =
     and_then (and_then (at (node_input op) 0) (getOrCreateVariableByName L)) (\<lambda>(A, L1).
     and_then (and_then (at (node_input op) 1) (getOrCreateVariableByName L1)) (\<lambda>(B, L2).
     and_then (and_then (at (node_input op) 2) (getOrCreateVariableByName L2)) (\<lambda>(C, L3).
     and_then (getBroadcast L3 dict) (\<lambda>broadcastC.
     and_then (load_flag dict ''transA'') (\<lambda>transA.
     and_then (load_flag dict ''transB'') (\<lambda>transB.
     and_then (if transA then createTranspose L3 opName A [1, 0] else Inr (A, L3)) (\<lambda>(A, L4).
     and_then (if transB then createTranspose L4 opName B [1, 0] else Inr (B, L4)) (\<lambda>(B, L5).
       let (mul, L6) = createMatMul L5 opName A B;
           (C, L7) =
             (if broadcastC
              then (let axis = (of_nat (length (dims_of mul)) - of_nat (length (dims_of C)))
                    in createBroadcast L6 opName C (dims_of mul) axis)
              else (C, L6));
           (nd, L8) = createAdd L7 opName mul C in
       Inr (addNodeAsOutput L8 op nd)))))))))"

text \<open>
  Modelled from the spec: \<open>loadTranspose\<close> (of \<open>CommonOperatorLoader\<close>) permutes the
  dimensions of the input per a required permutation attribute.
\<close>

definition loadTranspose ::
  "Loader \<Rightarrow> NodeProto \<Rightarrow> ArgumentDictionaryTy \<Rightarrow> string \<Rightarrow> error + Loader" where
  "loadTranspose L op dict permArgName =
     (let opName = loadOperatorName op in
      and_then (at (node_input op) 0) (\<lambda>in0.
      and_then (getOrCreateVariableByName L in0) (\<lambda>(inp, L1).
      and_then (and_then (deref dict permArgName) getShape) (\<lambda>perm.
      and_then (createTranspose L1 opName inp (map unat perm)) (\<lambda>(T, L2).
        Inr (addNodeAsOutput L2 op T))))))"

definition answer_true :: "error + Loader \<Rightarrow> error + (bool \<times> Loader)" where
  "answer_true r = and_then r (\<lambda>L. Inr (True, L))"

definition loadOperator :: "CommonOperators \<Rightarrow> Loader \<Rightarrow> NodeProto \<Rightarrow> error + (bool \<times> Loader)" where
  "loadOperator tryLoadCommonOperator L0 op =
     (let dict = loadArgumentMap op; typeName = op_type op in
      and_then (tryLoadCommonOperator typeName op dict L0) (\<lambda>(loaded, L).
        if loaded then Inr (True, L)
        else
          (let opName = loadOperatorName op in
           if typeName = ''Constant'' then answer_true (load_Constant L op dict)
           else if typeName = ''Conv'' then answer_true (load_Conv L op dict opName)
           else if typeName = ''MaxPool'' \<or> typeName = ''AveragePool''
             then answer_true (load_Pool L op dict opName typeName)
           else if typeName = ''GlobalAveragePool''
             then answer_true (load_GlobalAveragePool L op dict opName)
           else if typeName = ''Squeeze'' then answer_true (load_Squeeze L op dict opName)
           else if typeName = ''Unsqueeze'' then answer_true (load_Unsqueeze L op dict opName)
           else if typeName = ''Dropout'' then answer_true (load_Dropout L op)
           else if typeName = ''BatchNormalization''
             then answer_true (load_BatchNormalization L op dict opName)
           else if typeName = ''Concat'' then answer_true (load_Concat L op dict opName)
           else if typeName = ''Gemm'' then answer_true (load_Gemm L op dict opName)
           else if typeName = ''Transpose'' then answer_true (loadTranspose L op dict ''perm'')
           else Inr (False, L))))"

text \<open>The operator names that \<open>loadOperator\<close> tests, in the order of its branches.\<close>

definition onnx_operators :: "string list" where
  "onnx_operators =
     [''Constant'', ''Conv'', ''MaxPool'', ''AveragePool'', ''GlobalAveragePool'', ''Squeeze'',
      ''Unsqueeze'', ''Dropout'', ''BatchNormalization'', ''Concat'', ''Gemm'', ''Transpose'']"

subsection \<open>Inputs, initializers, outputs and the network\<close>

definition loadShape :: "ValueInfoProto \<Rightarrow> error + Tensor" where
  "loadShape in' =
     (let dim = shape_dim in' in
      if elem_type in' = FLOAT then Inr (reset FloatTy dim)
      else if elem_type in' = INT64 then Inr (reset IndexTy dim)
      else Inl (UnsupportedTensorKind ''Only float and index tensors are supported''))"

fun loadInputs_loop :: "Loader \<Rightarrow> ValueInfoProto list \<Rightarrow> error + Loader" where
  "loadInputs_loop L [] = Inr L"
| "loadInputs_loop L (in' # rest) =
     and_then (loadShape in')
       (\<lambda>T. loadInputs_loop (L\<lparr>tensors := (tensors L)(value_name in' \<mapsto> T)\<rparr>) rest)"

definition loadInputs :: "Loader \<Rightarrow> GraphProto \<Rightarrow> error + Loader" where
  "loadInputs L net = loadInputs_loop L (graph_input net)"

fun loadInitializers_loop :: "Loader \<Rightarrow> TensorProto list \<Rightarrow> error + Loader" where
  "loadInitializers_loop L [] = Inr L"
| "loadInitializers_loop L (in' # rest) =
     and_then (loadTensor in')
       (\<lambda>T. loadInitializers_loop (L\<lparr>tensors := (tensors L)(tensor_name in' \<mapsto> T)\<rparr>) rest)"

definition loadInitializers :: "Loader \<Rightarrow> GraphProto \<Rightarrow> error + Loader" where
  "loadInitializers L net = loadInitializers_loop L (initializer net)"

fun setOutputNodes_loop :: "Loader \<Rightarrow> ValueInfoProto list \<Rightarrow> error + Loader" where
  "setOutputNodes_loop L [] = Inr L"
| "setOutputNodes_loop L (out # rest) =
     (let outputName = value_name out in
      and_then (getNodeByName L outputName) (\<lambda>r.
        let (save, L1) = createSave L (''save_'' @ outputName) r in
        setOutputNodes_loop (L1\<lparr>outputsByName := (outputsByName L1)(outputName \<mapsto> save)\<rparr>)
          rest))"

definition setOutputNodes :: "Loader \<Rightarrow> GraphProto \<Rightarrow> error + Loader" where
  "setOutputNodes L net =
     (if graph_output net = [] then Inl (FormatError ''Network needs external outputs defined.'')
      else setOutputNodes_loop L (graph_output net))"

fun loadNetwork_loop ::
  "CommonOperators \<Rightarrow> Loader \<Rightarrow> NodeProto list \<Rightarrow> error + (bool \<times> Loader)" where
  "loadNetwork_loop common L [] = Inr (True, L)"
| "loadNetwork_loop common L (op # rest) =
     and_then (loadOperator common L op) (\<lambda>(ok, L1).
       if \<not> ok then Inr (False, unexpectedNodeError L1 op ''Unsupported operator.'')
       else loadNetwork_loop common L1 rest)"

definition loadNetwork :: "CommonOperators \<Rightarrow> Loader \<Rightarrow> GraphProto \<Rightarrow> error + (bool \<times> Loader)" where
  "loadNetwork common L net = loadNetwork_loop common L (node net)"

subsection \<open>The two entry points\<close>

text \<open>
  Modelled from the spec: the constructor of the base class inserts the pre-bound
  tensors into the table first, under the names the caller gives; the graph \<open>F\<close> is the
  one the caller passes.
\<close>

fun prebind :: "(string \<rightharpoonup> Tensor) \<Rightarrow> (string \<times> Tensor) list \<Rightarrow> (string \<rightharpoonup> Tensor)" where
  "prebind m [] = m"
| "prebind m (p # ps) = prebind (m(fst p \<mapsto> snd p)) ps"

definition CommonOperatorLoader :: "string list \<Rightarrow> Tensor list \<Rightarrow> Function \<Rightarrow> error + Loader" where
  "CommonOperatorLoader tensorNames tensors' F =
     (if length tensorNames \<noteq> length tensors' then Inl (UsageError ''Invalid initialization list'')
      else Inr \<lparr>irVersion = 0, opsetVersion = 0,
                tensors = prebind Map.empty (zip tensorNames tensors'),
                nodeByName = Map.empty, outputsByName = Map.empty, G = F, outs = []\<rparr>)"

text \<open>\<open>ONNXModelLoader::parse\<close>: \<open>None\<close> is the null pointer it returns.\<close>

definition parse ::
  "CommonOperators \<Rightarrow> bool \<times> ModelProto \<Rightarrow> Function \<Rightarrow> error + Loader option" where
  "parse common onnxModel F =
     and_then (CommonOperatorLoader [] [] F) (\<lambda>onnxLoader.
     and_then (loadProto onnxLoader onnxModel) (\<lambda>(ok, modelDef, L1).
       if \<not> ok then Inr None
       else
         and_then (loadInputs L1 modelDef) (\<lambda>L2.
         and_then (loadNetwork common L2 modelDef) (\<lambda>(ok2, L3).
           if \<not> ok2 then Inr None else Inr (Some L3)))))"

text \<open>
  The constructor from a file. \<open>GLOW_ASSERT("Cannot load the network.")\<close> asserts a string
  literal, which is never false, so a failed decode does not stop the constructor.
\<close>

definition ONNXModelLoader ::
  "CommonOperators \<Rightarrow> (bool \<times> ModelProto) option \<Rightarrow> string list \<Rightarrow> Tensor list \<Rightarrow> Function \<Rightarrow>
   error + Loader" where
  "ONNXModelLoader common modelDescFile tensorNames tensors' F =
     and_then (CommonOperatorLoader tensorNames tensors' F) (\<lambda>L0.
     and_then (loadProto_file L0 modelDescFile) (\<lambda>(ok, modelDef, L1).
     and_then (loadInitializers L1 modelDef) (\<lambda>L2.
     and_then (loadNetwork common L2 modelDef) (\<lambda>(ok2, L3).
       if ok2 then setOutputNodes L3 modelDef else Inr L3))))"

subsection \<open>Example inputs\<close>

text \<open>A loader with nothing loaded, at a given operator-set version.\<close>

definition loader_at_opset :: "int \<Rightarrow> Loader" where
  "loader_at_opset v =
     \<lparr>irVersion = 3, opsetVersion = v, tensors = Map.empty, nodeByName = Map.empty,
      outputsByName = Map.empty, G = \<lparr>nodes = [], vars = []\<rparr>, outs = []\<rparr>"

text \<open>A model with no nodes, and the tensor record of the Constant example.\<close>

definition empty_graph :: GraphProto where
  "empty_graph = \<lparr>node = [], graph_input = [], initializer = [], graph_output = []\<rparr>"

definition model_with :: "int \<Rightarrow> OperatorSetIdProto list \<Rightarrow> ModelProto" where
  "model_with v imps = \<lparr>ir_version = v, opset_import = imps, graph = empty_graph\<rparr>"

definition float_record :: "int64 list \<Rightarrow> float32 list \<Rightarrow> TensorProto" where
  "float_record ds xs =
     \<lparr>tensor_name = ''Parameter6'', dims = ds, data_type = FLOAT, float_data = xs,
      int64_data = [], raw_data = None\<rparr>"

text \<open>
  A common operator loader that knows no operator, loaders with declared inputs, and
  the nodes and models of the examples.
\<close>

definition no_common :: CommonOperators where
  "no_common typeName op dict L = Inr (False, L)"

definition pool_loader :: Loader where
  "pool_loader = (loader_at_opset 7)\<lparr>tensors := [''x'' \<mapsto> reset FloatTy [1, 3, 7, 7]]\<rparr>"

definition pool_node :: "string \<Rightarrow> AttributeProto list \<Rightarrow> NodeProto" where
  "pool_node typeName attrs =
     \<lparr>op_type = typeName, op_name = ''pool'', node_input = [''x''], node_output = [''y''],
      attribute = attrs\<rparr>"

definition with_variable :: "Loader \<Rightarrow> string \<Rightarrow> Tensor \<Rightarrow> Loader" where
  "with_variable L name T =
     L\<lparr>G := (G L)\<lparr>vars := vars (G L) @ [Variable name T]\<rparr>,
       nodeByName := (nodeByName L)(name \<mapsto> Variable name T)\<rparr>"

definition conv_loader :: Loader where
  "conv_loader =
     (loader_at_opset 7)\<lparr>tensors :=
        [''x'' \<mapsto> reset FloatTy [1, 3, 32, 32], ''w'' \<mapsto> reset FloatTy [16, 3, 3, 3]]\<rparr>"

definition conv_node :: NodeProto where
  "conv_node =
     \<lparr>op_type = ''Conv'', op_name = ''conv1'', node_input = [''x'', ''w''],
      node_output = [''y''], attribute = []\<rparr>"

definition caller_tensor :: Tensor where
  "caller_tensor = \<lparr>tensor_dims = [1], payload = FloatData [0x3F800000]\<rparr>"

definition prebound_loader :: Loader where
  "prebound_loader =
     \<lparr>irVersion = 0, opsetVersion = 0, tensors = [''X'' \<mapsto> caller_tensor],
      nodeByName = Map.empty, outputsByName = Map.empty, G = \<lparr>nodes = [], vars = []\<rparr>,
      outs = []\<rparr>"

definition initializer_record :: "string \<Rightarrow> TensorProto" where
  "initializer_record name = (float_record [1] [0x40000000])\<lparr>tensor_name := name\<rparr>"

definition initializer_graph :: "string \<Rightarrow> GraphProto" where
  "initializer_graph name = empty_graph\<lparr>initializer := [initializer_record name]\<rparr>"

definition constant_node :: NodeProto where
  "constant_node =
     \<lparr>op_type = ''Constant'', op_name = ''Parameter6'', node_input = [],
      node_output = [''X''], attribute = [(''value'', AttrTensor (initializer_record ''X''))]\<rparr>"

definition dropout_node :: NodeProto where
  "dropout_node =
     \<lparr>op_type = ''Dropout'', op_name = ''drop'', node_input = [''x''], node_output = [''y''],
      attribute = []\<rparr>"

definition upsample_node :: NodeProto where
  "upsample_node =
     \<lparr>op_type = ''Upsample'', op_name = ''up'', node_input = [''y''], node_output = [''z''],
      attribute = []\<rparr>"

definition unsupported_graph :: GraphProto where
  "unsupported_graph =
     \<lparr>node = [dropout_node, upsample_node, conv_node],
      graph_input = [\<lparr>value_name = ''x'', elem_type = FLOAT, shape_dim = [1]\<rparr>],
      initializer = [initializer_record ''x''],
      graph_output = [\<lparr>value_name = ''z'', elem_type = FLOAT, shape_dim = [1]\<rparr>]\<rparr>"

definition unsupported_model :: ModelProto where
  "unsupported_model =
     \<lparr>ir_version = 3, opset_import = [\<lparr>domain = None, version = 7\<rparr>],
      graph = unsupported_graph\<rparr>"

definition seeded_loader :: "Tensor \<Rightarrow> Loader" where
  "seeded_loader T = (loader_at_opset 7)\<lparr>tensors := [''x'' \<mapsto> T]\<rparr>"

definition dropped_loader :: "Tensor \<Rightarrow> Loader" where
  "dropped_loader T =
     addNodeAsOutput (with_variable (seeded_loader T) ''x'' T) dropout_node (Variable ''x'' T)"

section \<open>Properties of the loader\<close>

subsection \<open>Padding and broadcasting\<close>

text \<open>
  C3. \<open>getPads\<close>: an int-array attribute \<open>pads\<close> is returned verbatim; without \<open>pads\<close>, a
  string attribute \<open>auto_pad\<close> gives \<open>{0,0,0,0}\<close> when it is \<open>"VALID"\<close> and fails for
  every other string; with neither attribute the result is \<open>{0,0,0,0}\<close>.
\<close>

theorem getPads_rule:
  "(dict ''pads'' = Some (AttrInts ps) \<longrightarrow> getPads dict = Inr ps) \<and>
   (dict ''pads'' = None \<and> dict ''auto_pad'' = Some (AttrString s) \<and> s = ''VALID'' \<longrightarrow>
      getPads dict = Inr [0, 0, 0, 0]) \<and>
   (dict ''pads'' = None \<and> dict ''auto_pad'' = Some (AttrString s) \<and> s \<noteq> ''VALID'' \<longrightarrow>
      getPads dict = Inl (UnsupportedAttributeShape ''only auto_pad==VALID is supported'')) \<and>
   (dict ''pads'' = None \<and> dict ''auto_pad'' = None \<longrightarrow> getPads dict = Inr [0, 0, 0, 0])"
  by (simp add: getPads_def getShape_def loadStr_def)

theorem getPads_rule_witness:
  "getPads (Map.empty(''pads'' \<mapsto> AttrInts [1, 2, 3, 4])) = Inr [1, 2, 3, 4] \<and>
   getPads (Map.empty(''auto_pad'' \<mapsto> AttrString ''VALID'')) = Inr [0, 0, 0, 0] \<and>
   getPads (Map.empty(''auto_pad'' \<mapsto> AttrString ''SAME_UPPER'')) =
     Inl (UnsupportedAttributeShape ''only auto_pad==VALID is supported'') \<and>
   getPads Map.empty = Inr [0, 0, 0, 0]"
  using getPads_rule [of "Map.empty(''pads'' \<mapsto> AttrInts [1, 2, 3, 4])" "[1, 2, 3, 4]" "''VALID''"]
    getPads_rule [of "Map.empty(''auto_pad'' \<mapsto> AttrString ''VALID'')" "[]" "''VALID''"]
    getPads_rule [of "Map.empty(''auto_pad'' \<mapsto> AttrString ''SAME_UPPER'')" "[]" "''SAME_UPPER''"]
    getPads_rule [of Map.empty "[]" "''VALID''"]
  by simp

text \<open>
  C4. \<open>getBroadcast\<close>: above operator-set version 6 the answer is true whatever the
  dictionary holds; at version 6 or below it is false without a \<open>broadcast\<close> attribute,
  it is \<open>i = 1\<close> for an integer attribute \<open>i\<close>, and it is true exactly when the
  dictionary holds the integer attribute \<open>broadcast = 1\<close>.
\<close>

theorem getBroadcast_rule:
  "(opsetVersion L > 6 \<longrightarrow> getBroadcast L dict = Inr True) \<and>
   (opsetVersion L \<le> 6 \<and> dict ''broadcast'' = None \<longrightarrow> getBroadcast L dict = Inr False) \<and>
   (opsetVersion L \<le> 6 \<and> dict ''broadcast'' = Some (AttrInt i) \<longrightarrow>
      getBroadcast L dict = Inr (i = 1)) \<and>
   (opsetVersion L \<le> 6 \<longrightarrow>
      (getBroadcast L dict = Inr True) = (dict ''broadcast'' = Some (AttrInt 1)))"
  by (auto simp: getBroadcast_def loadInt_def split: option.splits AttributeValue.splits)

theorem getBroadcast_rule_witness:
  "getBroadcast (loader_at_opset 7) (Map.empty(''broadcast'' \<mapsto> AttrInt 0)) = Inr True \<and>
   getBroadcast (loader_at_opset 6) Map.empty = Inr False \<and>
   getBroadcast (loader_at_opset 6) (Map.empty(''broadcast'' \<mapsto> AttrInt 1)) = Inr True \<and>
   getBroadcast (loader_at_opset 6) (Map.empty(''broadcast'' \<mapsto> AttrInt 0)) = Inr False"
  using getBroadcast_rule [of "loader_at_opset 7" "Map.empty(''broadcast'' \<mapsto> AttrInt 0)" 0]
    getBroadcast_rule [of "loader_at_opset 6" Map.empty 0]
    getBroadcast_rule [of "loader_at_opset 6" "Map.empty(''broadcast'' \<mapsto> AttrInt 1)" 1]
    getBroadcast_rule [of "loader_at_opset 6" "Map.empty(''broadcast'' \<mapsto> AttrInt 0)" 0]
  by (simp add: loader_at_opset_def)

subsection \<open>Version resolution\<close>

lemma setVersion_loop_none:
  "list_all (\<lambda>imp. domain imp \<noteq> None \<and> domain imp \<noteq> Some []) imps \<Longrightarrow>
   setVersion_loop v imps = v"
  by (induction imps) auto

lemma setVersion_loop_first:
  "list_all (\<lambda>imp. domain imp \<noteq> None \<and> domain imp \<noteq> Some []) pre \<Longrightarrow>
   domain imp = None \<or> domain imp = Some [] \<Longrightarrow>
   setVersion_loop v (pre @ imp # post) = version imp"
  by (induction pre) auto

text \<open>
  C6. \<open>setVersion\<close> fails when the IR version is below 3 and when no opset import has
  an empty or absent domain; otherwise the first such import sets \<open>opsetVersion\<close>, and
  the load goes on when that version is positive. A model with IR version 3 and the
  single import of version 7, without a domain, is loaded with \<open>opsetVersion = 7\<close>.
\<close>

theorem setVersion_rule:
  "(ir_version MP < 3 \<longrightarrow>
      setVersion L MP = Inl (VersionError
        ''This ONNX model with ir_version < 3 is too old to be supported.'')) \<and>
   (3 \<le> ir_version MP \<and>
    list_all (\<lambda>imp. domain imp \<noteq> None \<and> domain imp \<noteq> Some []) (opset_import MP) \<longrightarrow>
      setVersion L MP = Inl (VersionError ''The opset of this ONNX model is not supported.'')) \<and>
   (3 \<le> ir_version MP \<and> opset_import MP = pre @ imp # post \<and>
    list_all (\<lambda>imp. domain imp \<noteq> None \<and> domain imp \<noteq> Some []) pre \<and>
    (domain imp = None \<or> domain imp = Some []) \<and> 0 < version imp \<longrightarrow>
      setVersion L MP = Inr (L\<lparr>irVersion := ir_version MP, opsetVersion := version imp\<rparr>)) \<and>
   (ir_version MP = 3 \<and> opset_import MP = [imp] \<and>
    (domain imp = None \<or> domain imp = Some []) \<and> version imp = 7 \<longrightarrow>
      setVersion L MP = Inr (L\<lparr>irVersion := 3, opsetVersion := 7\<rparr>) \<and>
      loadProto L (True, MP) = Inr (True, graph MP, L\<lparr>irVersion := 3, opsetVersion := 7\<rparr>))"
proof (intro conjI impI)
  assume "ir_version MP < 3"
  then show "setVersion L MP = Inl (VersionError
        ''This ONNX model with ir_version < 3 is too old to be supported.'')"
    by (simp add: setVersion_def)
next
  assume "3 \<le> ir_version MP \<and>
    list_all (\<lambda>imp. domain imp \<noteq> None \<and> domain imp \<noteq> Some []) (opset_import MP)"
  then show "setVersion L MP = Inl (VersionError ''The opset of this ONNX model is not supported.'')"
    by (simp add: setVersion_def setVersion_loop_none)
next
  assume a: "3 \<le> ir_version MP \<and> opset_import MP = pre @ imp # post \<and>
    list_all (\<lambda>imp. domain imp \<noteq> None \<and> domain imp \<noteq> Some []) pre \<and>
    (domain imp = None \<or> domain imp = Some []) \<and> 0 < version imp"
  then have "setVersion_loop 0 (opset_import MP) = version imp"
    using setVersion_loop_first [of pre imp 0 post] by simp
  with a show "setVersion L MP = Inr (L\<lparr>irVersion := ir_version MP, opsetVersion := version imp\<rparr>)"
    by (simp add: setVersion_def)
next
  assume a: "ir_version MP = 3 \<and> opset_import MP = [imp] \<and>
    (domain imp = None \<or> domain imp = Some []) \<and> version imp = 7"
  then show s: "setVersion L MP = Inr (L\<lparr>irVersion := 3, opsetVersion := 7\<rparr>)"
    by (auto simp: setVersion_def)
  from a show "loadProto L (True, MP) = Inr (True, graph MP, L\<lparr>irVersion := 3, opsetVersion := 7\<rparr>)"
    by (auto simp: loadProto_def setVersion_def)
qed

theorem setVersion_rule_witness:
  "setVersion (loader_at_opset 0) (model_with 2 [\<lparr>domain = None, version = 7\<rparr>]) =
     Inl (VersionError ''This ONNX model with ir_version < 3 is too old to be supported.'') \<and>
   setVersion (loader_at_opset 0) (model_with 3 [\<lparr>domain = Some ''ai.onnx.ml'', version = 1\<rparr>]) =
     Inl (VersionError ''The opset of this ONNX model is not supported.'') \<and>
   setVersion (loader_at_opset 0)
     (model_with 4 [\<lparr>domain = Some ''ai.onnx.ml'', version = 1\<rparr>, \<lparr>domain = Some [], version = 8\<rparr>,
        \<lparr>domain = None, version = 9\<rparr>]) =
     Inr ((loader_at_opset 0)\<lparr>irVersion := 4, opsetVersion := 8\<rparr>) \<and>
   setVersion (loader_at_opset 0) (model_with 3 [\<lparr>domain = None, version = 7\<rparr>]) =
     Inr ((loader_at_opset 0)\<lparr>irVersion := 3, opsetVersion := 7\<rparr>) \<and>
   loadProto (loader_at_opset 0) (True, model_with 3 [\<lparr>domain = None, version = 7\<rparr>]) =
     Inr (True, empty_graph, (loader_at_opset 0)\<lparr>irVersion := 3, opsetVersion := 7\<rparr>)"
  using setVersion_rule [of "model_with 2 [\<lparr>domain = None, version = 7\<rparr>]" "loader_at_opset 0"
      "[]" "\<lparr>domain = None, version = 7\<rparr>" "[]"]
    setVersion_rule [of "model_with 3 [\<lparr>domain = Some ''ai.onnx.ml'', version = 1\<rparr>]"
      "loader_at_opset 0" "[]" "\<lparr>domain = None, version = 7\<rparr>" "[]"]
    setVersion_rule [of "model_with 4 [\<lparr>domain = Some ''ai.onnx.ml'', version = 1\<rparr>,
        \<lparr>domain = Some [], version = 8\<rparr>, \<lparr>domain = None, version = 9\<rparr>]"
      "loader_at_opset 0" "[\<lparr>domain = Some ''ai.onnx.ml'', version = 1\<rparr>]"
      "\<lparr>domain = Some [], version = 8\<rparr>" "[\<lparr>domain = None, version = 9\<rparr>]"]
    setVersion_rule [of "model_with 3 [\<lparr>domain = None, version = 7\<rparr>]" "loader_at_opset 0"
      "[]" "\<lparr>domain = None, version = 7\<rparr>" "[]"]
  by (simp add: model_with_def)

subsection \<open>Materializing tensors\<close>

text \<open>
  C9. \<open>loadTensor\<close> fails for a record whose element kind is neither FLOAT nor INT64,
  and for a FLOAT or INT64 record that has neither elements of its kind nor a byte
  blob: no buffer is produced.
\<close>

theorem loadTensor_unsupported:
  "(data_type t \<noteq> FLOAT \<and> data_type t \<noteq> INT64 \<longrightarrow>
      loadTensor t = Inl (UnsupportedTensorKind ''Only float and index tensors are supported'')) \<and>
   (data_type t = FLOAT \<and> float_data t = [] \<and> raw_data t = None \<longrightarrow>
      loadTensor t = Inl (UnsupportedTensorKind ''Unsupported Tensor format.'')) \<and>
   (data_type t = INT64 \<and> int64_data t = [] \<and> raw_data t = None \<longrightarrow>
      loadTensor t = Inl (UnsupportedTensorKind ''Unsupported Tensor format.''))"
  by (simp add: loadTensor_def)

theorem loadTensor_unsupported_witness:
  "loadTensor \<lparr>tensor_name = ''t'', dims = [2], data_type = DOUBLE, float_data = [1, 2],
       int64_data = [], raw_data = None\<rparr> =
     Inl (UnsupportedTensorKind ''Only float and index tensors are supported'') \<and>
   loadTensor \<lparr>tensor_name = ''t'', dims = [2], data_type = FLOAT, float_data = [],
       int64_data = [], raw_data = None\<rparr> =
     Inl (UnsupportedTensorKind ''Unsupported Tensor format.'') \<and>
   loadTensor \<lparr>tensor_name = ''t'', dims = [2], data_type = INT64, float_data = [],
       int64_data = [], raw_data = None\<rparr> =
     Inl (UnsupportedTensorKind ''Unsupported Tensor format.'')"
  using loadTensor_unsupported [of "\<lparr>tensor_name = ''t'', dims = [2], data_type = DOUBLE,
       float_data = [1, 2], int64_data = [], raw_data = None\<rparr>"]
    loadTensor_unsupported [of "\<lparr>tensor_name = ''t'', dims = [2], data_type = FLOAT,
       float_data = [], int64_data = [], raw_data = None\<rparr>"]
    loadTensor_unsupported [of "\<lparr>tensor_name = ''t'', dims = [2], data_type = INT64,
       float_data = [], int64_data = [], raw_data = None\<rparr>"]
  by simp

lemma raw_store_fits:
  "i + length fs \<le> length buf \<Longrightarrow>
   raw_store buf i fs = take i buf @ fs @ drop (i + length fs) buf"
proof (induction fs arbitrary: buf i)
  case Nil
  then show ?case by simp
next
  case (Cons f fs)
  then have "raw_store (buf[i := f]) (Suc i) fs =
    take (Suc i) (buf[i := f]) @ fs @ drop (Suc i + length fs) (buf[i := f])"
    by simp
  moreover have "take (Suc i) (buf[i := f]) = take i buf @ [f]"
    using Cons.prems by (simp add: take_Suc_conv_app_nth)
  ultimately show ?case using Cons.prems by simp
qed

text \<open>
  C7, as the code has it. A FLOAT record with a non-empty element array is copied in
  order into a buffer that holds the product of the dimensions many elements. When the
  array has exactly that many elements, the buffer is the array; when it has fewer, the
  buffer is the array followed by zeros.
\<close>

theorem loadTensor_float_data:
  "(data_type t = FLOAT \<and> float_data t \<noteq> [] \<and>
    length (float_data t) = tensor_size (dims t) \<longrightarrow>
      loadTensor t = Inr \<lparr>tensor_dims = dims t, payload = FloatData (float_data t)\<rparr>) \<and>
   (data_type t = FLOAT \<and> float_data t \<noteq> [] \<and>
    length (float_data t) < tensor_size (dims t) \<longrightarrow>
      loadTensor t = Inr \<lparr>tensor_dims = dims t,
        payload = FloatData (float_data t @
          replicate (tensor_size (dims t) - length (float_data t)) 0)\<rparr>)"
proof (intro conjI impI)
  assume a: "data_type t = FLOAT \<and> float_data t \<noteq> [] \<and>
    length (float_data t) = tensor_size (dims t)"
  then have "raw_store (replicate (tensor_size (dims t)) 0) 0 (float_data t) = float_data t"
    using raw_store_fits [of 0 "float_data t" "replicate (tensor_size (dims t)) 0"] by simp
  moreover from a have "tensor_size (dims t) \<noteq> 0"
    by (metis length_0_conv)
  ultimately show "loadTensor t = Inr \<lparr>tensor_dims = dims t, payload = FloatData (float_data t)\<rparr>"
    using a by (simp add: loadTensor_def reset_def Let_def)
next
  assume a: "data_type t = FLOAT \<and> float_data t \<noteq> [] \<and>
    length (float_data t) < tensor_size (dims t)"
  then have "raw_store (replicate (tensor_size (dims t)) 0) 0 (float_data t) =
    float_data t @ replicate (tensor_size (dims t) - length (float_data t)) 0"
    using raw_store_fits [of 0 "float_data t" "replicate (tensor_size (dims t)) 0"] by simp
  with a show "loadTensor t = Inr \<lparr>tensor_dims = dims t,
        payload = FloatData (float_data t @
          replicate (tensor_size (dims t) - length (float_data t)) 0)\<rparr>"
    by (simp add: loadTensor_def reset_def Let_def)
qed

theorem loadTensor_float_data_witness:
  "loadTensor (float_record [8]
       [0xBE256AAB, 0xBEDE1FB5, 0x3DBBAE77, 0xBC8A0DA9, 0xBD852C95, 0xBE06E64B, 0x3CA742B5,
        0xBDF808A4]) =
     Inr \<lparr>tensor_dims = [8],
          payload = FloatData
            [0xBE256AAB, 0xBEDE1FB5, 0x3DBBAE77, 0xBC8A0DA9, 0xBD852C95, 0xBE06E64B, 0x3CA742B5,
             0xBDF808A4]\<rparr> \<and>
   loadTensor (float_record [2, 2] [0x3F800000, 0x40000000, 0x40400000]) =
     Inr \<lparr>tensor_dims = [2, 2],
          payload = FloatData [0x3F800000, 0x40000000, 0x40400000, 0]\<rparr>"
  using loadTensor_float_data [of "float_record [8]
       [0xBE256AAB, 0xBEDE1FB5, 0x3DBBAE77, 0xBC8A0DA9, 0xBD852C95, 0xBE06E64B, 0x3CA742B5,
        0xBDF808A4]"]
    loadTensor_float_data [of "float_record [2, 2] [0x3F800000, 0x40000000, 0x40400000]"]
  by (simp add: float_record_def tensor_size_def)

text \<open>
  C7 as the spec states it, for every record with a non-empty element array, does not
  hold: one element under \<open>dims = [2]\<close> gives a buffer of two elements.
\<close>

theorem loadTensor_float_data_counterexample:
  "loadTensor (float_record [2] [0x3F800000]) =
     Inr \<lparr>tensor_dims = [2], payload = FloatData [0x3F800000, 0]\<rparr> \<and>
   float_data (float_record [2] [0x3F800000]) = [0x3F800000] \<and>
   [0x3F800000, 0] \<noteq> [0x3F800000 :: float32]"
proof -
  have "tensor_size [2] = Suc (Suc 0)"
    by (simp add: tensor_size_def)
  then show ?thesis
    by (simp add: float_record_def loadTensor_def reset_def Let_def)
qed

subsection \<open>Auxiliary facts\<close>

lemma and_then_split:
  "P (and_then m f) = ((\<forall>e. m = Inl e \<longrightarrow> P (Inl e)) \<and> (\<forall>x. m = Inr x \<longrightarrow> P (f x)))"
  by (cases m) auto

lemma answer_true_Inl [simp]: "answer_true (Inl e) = Inl e"
  by (simp add: answer_true_def)

lemma answer_true_Inr [simp]: "answer_true (Inr L) = Inr (True, L)"
  by (simp add: answer_true_def)

subsection \<open>Pooling\<close>

lemma loadOperator_Pool:
  "op_type op = ''MaxPool'' \<or> op_type op = ''AveragePool'' \<Longrightarrow>
   common (op_type op) op (loadArgumentMap op) L0 = Inr (False, L) \<Longrightarrow>
   loadOperator common L0 op =
     answer_true (load_Pool L op (loadArgumentMap op) (loadOperatorName op) (op_type op))"
  by (auto simp: loadOperator_def Let_def)

lemma load_Pool_no_kernel_shape:
  "dict ''kernel_shape'' = None \<Longrightarrow> \<exists>e. load_Pool L op dict opName typeName = Inl e"
  by (auto simp: load_Pool_def deref_def at_def split: and_then_split prod.splits)

lemma load_Pool_null_kernel_shape:
  "dict ''kernel_shape'' = None \<Longrightarrow> node_input op = in0 # ins \<Longrightarrow>
   getOrCreateVariableByName L in0 = Inr (inp, L1) \<Longrightarrow> load_stride dict = Inr stride \<Longrightarrow>
   load_Pool L op dict opName typeName = Inl (UsageError ''null attribute: kernel_shape'')"
  by (simp add: load_Pool_def deref_def at_def)

text \<open>
  C10. A MaxPool or AveragePool node without a \<open>kernel_shape\<close> attribute is never
  lowered, whether it carries \<open>global_pooling\<close> or not: \<open>loadOperator\<close> fails, and once
  the input and the stride are read the failure is the access through the null attribute
  pointer that \<open>dict["kernel_shape"]\<close> yields, before \<open>global_pooling\<close> is consulted.
\<close>

theorem pool_needs_kernel_shape:
  assumes "op_type op = ''MaxPool'' \<or> op_type op = ''AveragePool''"
    and "common (op_type op) op (loadArgumentMap op) L0 = Inr (False, L)"
    and "loadArgumentMap op ''kernel_shape'' = None"
  shows "(\<exists>e. loadOperator common L0 op = Inl e) \<and>
    (\<forall>in0 ins inp L1 stride.
       node_input op = in0 # ins \<and> getOrCreateVariableByName L in0 = Inr (inp, L1) \<and>
       load_stride (loadArgumentMap op) = Inr stride \<longrightarrow>
       loadOperator common L0 op = Inl (UsageError ''null attribute: kernel_shape''))"
proof -
  have eq: "loadOperator common L0 op =
     answer_true (load_Pool L op (loadArgumentMap op) (loadOperatorName op) (op_type op))"
    using assms(1,2) by (rule loadOperator_Pool)
  obtain e where "load_Pool L op (loadArgumentMap op) (loadOperatorName op) (op_type op) = Inl e"
    using assms(3) load_Pool_no_kernel_shape [of "loadArgumentMap op"] by blast
  then have "\<exists>e. loadOperator common L0 op = Inl e"
    using eq by simp
  moreover have "\<forall>in0 ins inp L1 stride.
       node_input op = in0 # ins \<and> getOrCreateVariableByName L in0 = Inr (inp, L1) \<and>
       load_stride (loadArgumentMap op) = Inr stride \<longrightarrow>
       loadOperator common L0 op = Inl (UsageError ''null attribute: kernel_shape'')"
    using eq assms(3) load_Pool_null_kernel_shape [of "loadArgumentMap op"] by simp
  ultimately show ?thesis by blast
qed

lemma tensor_dims_reset [simp]: "tensor_dims (reset k ds) = ds"
  by (simp add: reset_def)

theorem pool_needs_kernel_shape_witness:
  "loadArgumentMap (pool_node ''MaxPool'' [(''global_pooling'', AttrInt 1)]) ''kernel_shape'' = None \<and>
   loadArgumentMap (pool_node ''MaxPool'' [(''global_pooling'', AttrInt 1)]) ''global_pooling'' =
     Some (AttrInt 1) \<and>
   loadOperator no_common pool_loader (pool_node ''MaxPool'' [(''global_pooling'', AttrInt 1)]) =
     Inl (UsageError ''null attribute: kernel_shape'')"
  using pool_needs_kernel_shape [of "pool_node ''MaxPool'' [(''global_pooling'', AttrInt 1)]"
      no_common pool_loader pool_loader]
  by (simp add: no_common_def pool_node_def pool_loader_def loadArgumentMap_def
      getOrCreateVariableByName_def getTensorByName_def createVariable_def load_stride_def
      loader_at_opset_def)

text \<open>
  C8, as the code has it. A MaxPool node that carries \<open>global_pooling\<close> and a non-empty
  int-array \<open>kernel_shape\<close>, on a channel-first input of shape \<open>[n, c, h, w]\<close>: the pool is
  created with the kernel \<open>w\<close>, the last dimension of the input (the spatial extent of a
  square input), whatever \<open>kernel_shape\<close> holds; the stride is the one \<open>load_stride\<close>
  reads, which is 1 without a \<open>strides\<close> attribute; the pads are those of \<open>getPads\<close>; the
  pool is between the transpose to channel-last and its inverse.
\<close>

theorem global_pooling_kernel:
  assumes "op_type op = ''MaxPool''"
    and "common (op_type op) op (loadArgumentMap op) L0 = Inr (False, L)"
    and "node_input op = in0 # ins"
    and "getOrCreateVariableByName L in0 = Inr (inp, L1)"
    and "dims_of inp = [n, c, h, w]"
    and "loadArgumentMap op ''kernel_shape'' = Some (AttrInts (k # ks))"
    and "loadArgumentMap op ''global_pooling'' = Some gp"
    and "load_stride (loadArgumentMap op) = Inr stride"
    and "getPads (loadArgumentMap op) = Inr pads"
    and "calculateConvPoolOutputDims h w w (scast stride) pads = Inr (oh, ow)"
  shows "(let opName = loadOperatorName op;
              tr = TransposeNode opName inp NCHW2NHWC [n, h, w, c];
              pool = PoolMaxNode opName tr w (scast stride) pads [n, oh, ow, c];
              N = TransposeNode opName pool NHWC2NCHW [n, c, oh, ow]
          in loadOperator common L0 op =
               Inr (True, addNodeAsOutput
                 (L1\<lparr>G := (G L1)\<lparr>nodes := nodes (G L1) @ [tr, pool, N]\<rparr>\<rparr>) op N)) \<and>
         (loadArgumentMap op ''strides'' = None \<longrightarrow> stride = 1)"
proof -
  have eq: "loadOperator common L0 op =
     answer_true (load_Pool L op (loadArgumentMap op) (loadOperatorName op) (op_type op))"
    using assms(1,2) by (simp add: loadOperator_Pool)
  have v1: "valid_shuffle NCHW2NHWC (Suc (Suc (Suc (Suc 0))))"
    and v2: "valid_shuffle NHWC2NCHW (Suc (Suc (Suc (Suc 0))))"
    by (simp_all add: valid_shuffle_def NCHW2NHWC_def NHWC2NCHW_def)
  have s1: "shuffled [n, c, h, w] NCHW2NHWC = [n, h, w, c]"
    by (simp add: shuffled_def NCHW2NHWC_def)
  have s2: "shuffled [n, oh, ow, c] NHWC2NCHW = [n, c, oh, ow]"
    by (simp add: shuffled_def NHWC2NCHW_def)
  have "load_Pool L op (loadArgumentMap op) (loadOperatorName op) (op_type op) =
    Inr (addNodeAsOutput
      (L1\<lparr>G := (G L1)\<lparr>nodes := nodes (G L1) @
         [TransposeNode (loadOperatorName op) inp NCHW2NHWC [n, h, w, c],
          PoolMaxNode (loadOperatorName op)
            (TransposeNode (loadOperatorName op) inp NCHW2NHWC [n, h, w, c])
            w (scast stride) pads [n, oh, ow, c],
          TransposeNode (loadOperatorName op)
            (PoolMaxNode (loadOperatorName op)
              (TransposeNode (loadOperatorName op) inp NCHW2NHWC [n, h, w, c])
              w (scast stride) pads [n, oh, ow, c]) NHWC2NCHW [n, c, oh, ow]]\<rparr>\<rparr>) op
      (TransposeNode (loadOperatorName op)
            (PoolMaxNode (loadOperatorName op)
              (TransposeNode (loadOperatorName op) inp NCHW2NHWC [n, h, w, c])
              w (scast stride) pads [n, oh, ow, c]) NHWC2NCHW [n, c, oh, ow]))"
    using assms(1,3-10) v1 v2 s1 s2
    by (simp add: load_Pool_def at_def deref_def getConstantArrayHead_def getShape_def
        createTranspose_def insertNode_def createPoolMax_def poolOutputDims_def ShapeNHWC_def)
  moreover have "loadArgumentMap op ''strides'' = None \<longrightarrow> stride = 1"
    using assms(8) by (auto simp: load_stride_def)
  ultimately show ?thesis
    using eq by (simp add: Let_def)
qed

lemma getOrCreateVariableByName_new:
  "nodeByName L name = None \<Longrightarrow> tensors L name = Some T \<Longrightarrow>
   getOrCreateVariableByName L name = Inr (Variable name T, with_variable L name T)"
  by (simp add: getOrCreateVariableByName_def getTensorByName_def createVariable_def
      with_variable_def)

theorem global_pooling_kernel_witness:
  "loadArgumentMap
      (pool_node ''MaxPool'' [(''kernel_shape'', AttrInts [2, 2]), (''global_pooling'', AttrInt 1)])
      ''kernel_shape'' = Some (AttrInts [2, 2]) \<and>
   (let op = pool_node ''MaxPool''
               [(''kernel_shape'', AttrInts [2, 2]), (''global_pooling'', AttrInt 1)];
        inp = Variable ''x'' (reset FloatTy [1, 3, 7, 7]);
        L1 = with_variable pool_loader ''x'' (reset FloatTy [1, 3, 7, 7]);
        tr = TransposeNode ''pool'' inp NCHW2NHWC [1, 7, 7, 3];
        pool = PoolMaxNode ''pool'' tr 7 1 [0, 0, 0, 0] [1, 1, 1, 3];
        N = TransposeNode ''pool'' pool NHWC2NCHW [1, 3, 1, 1]
    in loadOperator no_common pool_loader op =
         Inr (True, addNodeAsOutput
           (L1\<lparr>G := (G L1)\<lparr>nodes := nodes (G L1) @ [tr, pool, N]\<rparr>\<rparr>) op N))"
proof -
  let ?op = "pool_node ''MaxPool''
               [(''kernel_shape'', AttrInts [2, 2]), (''global_pooling'', AttrInt 1)]"
  have d: "loadArgumentMap ?op =
     [''kernel_shape'' \<mapsto> AttrInts [2, 2], ''global_pooling'' \<mapsto> AttrInt 1]"
    by (simp add: loadArgumentMap_def pool_node_def)
  have g: "getOrCreateVariableByName pool_loader ''x'' =
     Inr (Variable ''x'' (reset FloatTy [1, 3, 7, 7]),
          with_variable pool_loader ''x'' (reset FloatTy [1, 3, 7, 7]))"
    by (rule getOrCreateVariableByName_new) (simp_all add: pool_loader_def loader_at_opset_def)
  have c: "calculateConvPoolOutputDims 7 7 7 (scast (1 :: 32 word)) [0, 0, 0, 0] = Inr (1, 1)"
    by (simp add: calculateConvPoolOutputDims_def at_def)
  show ?thesis
    using global_pooling_kernel [where op = ?op and common = no_common and ?L0.0 = pool_loader
        and L = pool_loader and ?in0.0 = "''x''" and ins = "[]"
        and inp = "Variable ''x'' (reset FloatTy [1, 3, 7, 7])"
        and ?L1.0 = "with_variable pool_loader ''x'' (reset FloatTy [1, 3, 7, 7])"
        and n = 1 and c = 3 and h = 7 and w = 7 and k = 2 and ks = "[2]" and gp = "AttrInt 1"
        and stride = 1 and pads = "[0, 0, 0, 0]" and oh = 1 and ow = 1] d g c
    by (simp add: no_common_def pool_node_def load_stride_def getPads_def loadOperatorName_def
        Let_def)
qed

text \<open>
  C8 as the spec states it, for every MaxPool node that carries \<open>global_pooling\<close>, does
  not hold: on a 7 by 7 input, a node with \<open>global_pooling\<close> and without \<open>kernel_shape\<close>
  creates no pool of kernel 7; its lowering stops at the null \<open>kernel_shape\<close> pointer.
\<close>

theorem global_pooling_kernel_counterexample:
  "op_type (pool_node ''MaxPool'' [(''strides'', AttrInts [1, 1]), (''global_pooling'', AttrInt 1)]) =
     ''MaxPool'' \<and>
   loadArgumentMap
      (pool_node ''MaxPool'' [(''strides'', AttrInts [1, 1]), (''global_pooling'', AttrInt 1)])
      ''global_pooling'' = Some (AttrInt 1) \<and>
   tensors pool_loader ''x'' = Some (reset FloatTy [1, 3, 7, 7]) \<and>
   loadOperator no_common pool_loader
      (pool_node ''MaxPool'' [(''strides'', AttrInts [1, 1]), (''global_pooling'', AttrInt 1)]) =
     Inl (UsageError ''null attribute: kernel_shape'')"
proof -
  let ?op = "pool_node ''MaxPool'' [(''strides'', AttrInts [1, 1]), (''global_pooling'', AttrInt 1)]"
  have d: "loadArgumentMap ?op =
     [''strides'' \<mapsto> AttrInts [1, 1], ''global_pooling'' \<mapsto> AttrInt 1]"
    by (simp add: loadArgumentMap_def pool_node_def)
  have g: "getOrCreateVariableByName pool_loader ''x'' =
     Inr (Variable ''x'' (reset FloatTy [1, 3, 7, 7]),
          with_variable pool_loader ''x'' (reset FloatTy [1, 3, 7, 7]))"
    by (rule getOrCreateVariableByName_new) (simp_all add: pool_loader_def loader_at_opset_def)
  have s: "load_stride (loadArgumentMap ?op) = Inr 1"
    by (simp add: d load_stride_def getConstantArrayHead_def getShape_def)
  have k: "loadArgumentMap ?op ''kernel_shape'' = None"
    by (simp add: d)
  have i: "node_input ?op = [''x'']"
    by (simp add: pool_node_def)
  have t: "op_type ?op = ''MaxPool''"
    by (simp add: pool_node_def)
  have "load_Pool pool_loader ?op (loadArgumentMap ?op) (loadOperatorName ?op) (op_type ?op) =
     Inl (UsageError ''null attribute: kernel_shape'')"
    using k i g s by (rule load_Pool_null_kernel_shape)
  moreover have "loadOperator no_common pool_loader ?op =
     answer_true (load_Pool pool_loader ?op (loadArgumentMap ?op) (loadOperatorName ?op)
       (op_type ?op))"
    using t by (intro loadOperator_Pool) (simp_all add: no_common_def)
  moreover have "loadArgumentMap ?op ''global_pooling'' = Some (AttrInt 1)"
    by (simp add: d)
  moreover have "tensors pool_loader ''x'' = Some (reset FloatTy [1, 3, 7, 7])"
    by (simp add: pool_loader_def)
  ultimately show ?thesis
    using t by simp
qed

subsection \<open>Convolution\<close>

lemma valid_NCHW2NHWC: "valid_shuffle NCHW2NHWC (Suc (Suc (Suc (Suc 0))))"
  by (simp add: valid_shuffle_def NCHW2NHWC_def)

lemma valid_NHWC2NCHW: "valid_shuffle NHWC2NCHW (Suc (Suc (Suc (Suc 0))))"
  by (simp add: valid_shuffle_def NHWC2NCHW_def)

lemma shuffled_NCHW2NHWC: "shuffled [n, c, h, w] NCHW2NHWC = [n, h, w, c]"
  by (simp add: shuffled_def NCHW2NHWC_def)

lemma shuffled_NHWC2NCHW: "shuffled [n, h, w, c] NHWC2NCHW = [n, c, h, w]"
  by (simp add: shuffled_def NHWC2NCHW_def)

lemma loadOperator_Conv:
  "op_type op = ''Conv'' \<Longrightarrow>
   common (op_type op) op (loadArgumentMap op) L0 = Inr (False, L) \<Longrightarrow>
   loadOperator common L0 op =
     answer_true (load_Conv L op (loadArgumentMap op) (loadOperatorName op))"
  by (simp add: loadOperator_def Let_def)

lemma conv_output_example:
  "calculateConvPoolOutputDims 32 32 3 1 [0, 0, 0, 0] = Inr (30, 30)"
  by (simp add: calculateConvPoolOutputDims_def at_def)

text \<open>
  C1. A Conv node whose input has the shape \<open>[1,3,32,32]\<close>, whose weight tensor has the
  shape \<open>[16,3,3,3]\<close>, and which has no \<open>strides\<close>, \<open>kernel_shape\<close> or \<open>pads\<close> attribute
  (and no \<open>auto_pad\<close> other than \<open>"VALID"\<close>), creates the transpose of the input to channel-last, a convolution with kernel
  3, stride 1, pads \<open>{0,0,0,0}\<close> and the output type \<open>[1,30,30,16]\<close>, and the inverse
  transpose, whose shape is \<open>[1,16,30,30]\<close>; the depth 16 is the leading dimension of the
  transposed weight.
\<close>

theorem conv_example:
  assumes "op_type op = ''Conv''"
    and "common (op_type op) op (loadArgumentMap op) L0 = Inr (False, L)"
    and "node_input op = in0 # in1 # ins"
    and "loadArgumentMap op ''strides'' = None"
    and "loadArgumentMap op ''kernel_shape'' = None"
    and "loadArgumentMap op ''pads'' = None"
    and "loadArgumentMap op ''auto_pad'' = None \<or>
         loadArgumentMap op ''auto_pad'' = Some (AttrString ''VALID'')"
    and "load_group (loadArgumentMap op) = Inr g"
    and "getOrCreateVariableByName L in0 = Inr (inp, L1)"
    and "dims_of inp = [1, 3, 32, 32]"
    and "tensors L1 in1 = Some W"
    and "tensor_dims W = [16, 3, 3, 3]"
  shows "(let opName = loadOperatorName op;
              wtag = transposed W NCHW2NHWC;
              filt = Variable ''conv.filter'' wtag;
              bias = Variable ''conv.bias'' (conv_bias L1 op 16);
              tr = TransposeNode opName inp NCHW2NHWC [1, 32, 32, 3];
              conv = ConvolutionNode opName tr filt bias 3 1 [0, 0, 0, 0] (ucast g)
                       [1, 30, 30, 16];
              N = TransposeNode opName conv NHWC2NCHW [1, 16, 30, 30]
          in loadOperator common L0 op =
               Inr (True, addNodeAsOutput
                 (L1\<lparr>G := (G L1)\<lparr>vars := vars (G L1) @ [filt, bias],
                                   nodes := nodes (G L1) @ [tr, conv, N]\<rparr>\<rparr>) op N) \<and>
             tensor_dims wtag = [16, 3, 3, 3] \<and> dims_of N = [1, 16, 30, 30])"
proof -
  have eq: "loadOperator common L0 op =
     answer_true (load_Conv L op (loadArgumentMap op) (loadOperatorName op))"
    using assms(1,2) by (rule loadOperator_Conv)
  have st: "load_stride (loadArgumentMap op) = Inr 1"
    using assms(4) by (simp add: load_stride_def)
  have pd: "getPads (loadArgumentMap op) = Inr [0, 0, 0, 0]"
    using assms(6,7) by (auto simp: getPads_def loadStr_def)
  have tw: "transpose_tensor W NCHW2NHWC = Inr (transposed W NCHW2NHWC)"
    using assms(12) valid_NCHW2NHWC by (simp add: transpose_tensor_def)
  have dw: "tensor_dims (transposed W NCHW2NHWC) = [16, 3, 3, 3]"
    using assms(12) by (simp add: transposed_def shuffled_NCHW2NHWC)
  have kn: "load_kernel (loadArgumentMap op) (Variable ''conv.filter'' (transposed W NCHW2NHWC)) = Inr 3"
    using assms(5) dw by (simp add: load_kernel_def at_def)
  have tn: "getTensorByName L1 in1 = Inr W"
    using assms(11) by (simp add: getTensorByName_def)
  have "load_Conv L op (loadArgumentMap op) (loadOperatorName op) =
    Inr (addNodeAsOutput
      (L1\<lparr>G := (G L1)\<lparr>vars := vars (G L1) @
          [Variable ''conv.filter'' (transposed W NCHW2NHWC),
           Variable ''conv.bias'' (conv_bias L1 op 16)],
        nodes := nodes (G L1) @
         [TransposeNode (loadOperatorName op) inp NCHW2NHWC [1, 32, 32, 3],
          ConvolutionNode (loadOperatorName op)
            (TransposeNode (loadOperatorName op) inp NCHW2NHWC [1, 32, 32, 3])
            (Variable ''conv.filter'' (transposed W NCHW2NHWC))
            (Variable ''conv.bias'' (conv_bias L1 op 16)) 3 1 [0, 0, 0, 0] (ucast g)
            [1, 30, 30, 16],
          TransposeNode (loadOperatorName op)
            (ConvolutionNode (loadOperatorName op)
              (TransposeNode (loadOperatorName op) inp NCHW2NHWC [1, 32, 32, 3])
              (Variable ''conv.filter'' (transposed W NCHW2NHWC))
              (Variable ''conv.bias'' (conv_bias L1 op 16)) 3 1 [0, 0, 0, 0] (ucast g)
              [1, 30, 30, 16]) NHWC2NCHW [1, 16, 30, 30]]\<rparr>\<rparr>) op
      (TransposeNode (loadOperatorName op)
            (ConvolutionNode (loadOperatorName op)
              (TransposeNode (loadOperatorName op) inp NCHW2NHWC [1, 32, 32, 3])
              (Variable ''conv.filter'' (transposed W NCHW2NHWC))
              (Variable ''conv.bias'' (conv_bias L1 op 16)) 3 1 [0, 0, 0, 0] (ucast g)
              [1, 30, 30, 16]) NHWC2NCHW [1, 16, 30, 30]))"
    using assms(3,8,9,10) st pd tw dw kn tn valid_NCHW2NHWC valid_NHWC2NCHW conv_output_example
    by (simp add: load_Conv_def at_def createVariable_def createTranspose_def insertNode_def
        createConv_def ShapeNHWC_def shuffled_NCHW2NHWC shuffled_NHWC2NCHW conv_bias_def
        Let_def)
  then show ?thesis
    using eq dw by (simp add: Let_def)
qed

theorem conv_example_witness:
  "tensors (with_variable conv_loader ''x'' (reset FloatTy [1, 3, 32, 32])) ''w'' =
     Some (reset FloatTy [16, 3, 3, 3]) \<and>
   (let inp = Variable ''x'' (reset FloatTy [1, 3, 32, 32]);
        L1 = with_variable conv_loader ''x'' (reset FloatTy [1, 3, 32, 32]);
        wtag = transposed (reset FloatTy [16, 3, 3, 3]) NCHW2NHWC;
        filt = Variable ''conv.filter'' wtag;
        bias = Variable ''conv.bias'' (reset FloatTy [16]);
        tr = TransposeNode ''conv1'' inp NCHW2NHWC [1, 32, 32, 3];
        conv = ConvolutionNode ''conv1'' tr filt bias 3 1 [0, 0, 0, 0] 1 [1, 30, 30, 16];
        N = TransposeNode ''conv1'' conv NHWC2NCHW [1, 16, 30, 30]
    in loadOperator no_common conv_loader conv_node =
         Inr (True, addNodeAsOutput
           (L1\<lparr>G := (G L1)\<lparr>vars := vars (G L1) @ [filt, bias],
                             nodes := nodes (G L1) @ [tr, conv, N]\<rparr>\<rparr>) conv_node N) \<and>
       tensor_dims wtag = [16, 3, 3, 3] \<and> dims_of N = [1, 16, 30, 30])"
proof -
  have d: "loadArgumentMap conv_node = Map.empty"
    by (simp add: loadArgumentMap_def conv_node_def)
  have g: "getOrCreateVariableByName conv_loader ''x'' =
     Inr (Variable ''x'' (reset FloatTy [1, 3, 32, 32]),
          with_variable conv_loader ''x'' (reset FloatTy [1, 3, 32, 32]))"
    by (rule getOrCreateVariableByName_new) (simp_all add: conv_loader_def loader_at_opset_def)
  have w: "tensors (with_variable conv_loader ''x'' (reset FloatTy [1, 3, 32, 32])) ''w'' =
     Some (reset FloatTy [16, 3, 3, 3])"
    by (simp add: with_variable_def conv_loader_def)
  show ?thesis
    using conv_example [where op = conv_node and common = no_common and ?L0.0 = conv_loader
        and L = conv_loader and ?in0.0 = "''x''" and ?in1.0 = "''w''" and ins = "[]" and g = 1
        and inp = "Variable ''x'' (reset FloatTy [1, 3, 32, 32])"
        and ?L1.0 = "with_variable conv_loader ''x'' (reset FloatTy [1, 3, 32, 32])"
        and W = "reset FloatTy [16, 3, 3, 3]"] d g w
    by (simp add: no_common_def conv_node_def load_group_def loadOperatorName_def conv_bias_def
        Let_def)
qed

subsection \<open>What lowering leaves unchanged\<close>

lemma and_then_InrE:
  "and_then m f = Inr y \<Longrightarrow> (\<And>x. m = Inr x \<Longrightarrow> f x = Inr y \<Longrightarrow> P) \<Longrightarrow> P"
  by (cases m) auto

lemma getOrCreateVariableByName_outputs:
  "getOrCreateVariableByName L name = Inr (V, L1) \<Longrightarrow> outputsByName L1 = outputsByName L"
  by (auto simp: getOrCreateVariableByName_def createVariable_def
      split: option.splits elim!: and_then_InrE)

lemma createTranspose_outputs:
  "createTranspose L name n shuffle = Inr (T, L1) \<Longrightarrow> outputsByName L1 = outputsByName L"
  by (auto simp: createTranspose_def insertNode_def split: if_splits)

lemma createPoolMax_outputs:
  "createPoolMax L name inp k s pads = Inr (T, L1) \<Longrightarrow> outputsByName L1 = outputsByName L"
  by (auto simp: createPoolMax_def insertNode_def elim!: and_then_InrE)

lemma createPoolAvg_outputs:
  "createPoolAvg L name inp k s pads = Inr (T, L1) \<Longrightarrow> outputsByName L1 = outputsByName L"
  by (auto simp: createPoolAvg_def insertNode_def elim!: and_then_InrE)

lemma addNodeAsOutput_outputs [simp]:
  "outputsByName (addNodeAsOutput L op R) = outputsByName L"
  by (simp add: addNodeAsOutput_def)

lemma load_Constant_outputs:
  "load_Constant L op dict = Inr L' \<Longrightarrow> outputsByName L' = outputsByName L"
  by (auto simp: load_Constant_def split: if_splits AttributeValue.splits elim!: and_then_InrE)

lemma load_Conv_outputs:
  "load_Conv L op dict opName = Inr L' \<Longrightarrow> outputsByName L' = outputsByName L"
  unfolding load_Conv_def
  by (auto simp: createVariable_def createConv_def insertNode_def Let_def
      dest!: getOrCreateVariableByName_outputs createTranspose_outputs
      elim!: and_then_InrE)

lemma load_Pool_outputs:
  "load_Pool L op dict opName typeName = Inr L' \<Longrightarrow> outputsByName L' = outputsByName L"
  unfolding load_Pool_def
  by (auto dest!: getOrCreateVariableByName_outputs createTranspose_outputs
      createPoolMax_outputs createPoolAvg_outputs split: if_splits
      elim!: and_then_InrE)

lemma load_GlobalAveragePool_outputs:
  "load_GlobalAveragePool L op dict opName = Inr L' \<Longrightarrow> outputsByName L' = outputsByName L"
  unfolding load_GlobalAveragePool_def
  by (auto simp: Let_def dest!: getOrCreateVariableByName_outputs createTranspose_outputs
      createPoolAvg_outputs split: if_splits elim!: and_then_InrE)

lemma load_Squeeze_outputs:
  "load_Squeeze L op dict opName = Inr L' \<Longrightarrow> outputsByName L' = outputsByName L"
  unfolding load_Squeeze_def
  by (auto simp: createSqueeze_def insertNode_def dest!: getOrCreateVariableByName_outputs
      elim!: and_then_InrE)

lemma load_Unsqueeze_outputs:
  "load_Unsqueeze L op dict opName = Inr L' \<Longrightarrow> outputsByName L' = outputsByName L"
  unfolding load_Unsqueeze_def
  by (auto simp: createExpandDims_def insertNode_def dest!: getOrCreateVariableByName_outputs
      elim!: and_then_InrE)

lemma load_Dropout_outputs:
  "load_Dropout L op = Inr L' \<Longrightarrow> outputsByName L' = outputsByName L"
  unfolding load_Dropout_def
  by (auto dest!: getOrCreateVariableByName_outputs elim!: and_then_InrE)

lemma load_BatchNormalization_outputs:
  "load_BatchNormalization L op dict opName = Inr L' \<Longrightarrow> outputsByName L' = outputsByName L"
  unfolding load_BatchNormalization_def
  by (auto simp: createBatchNormalization_def insertNode_def
      dest!: getOrCreateVariableByName_outputs elim!: and_then_InrE)

lemma load_Concat_loop_outputs:
  "load_Concat_loop L names inputs = Inr (ns, L') \<Longrightarrow> outputsByName L' = outputsByName L"
proof (induction names arbitrary: L inputs)
  case Nil
  then show ?case by simp
next
  case (Cons name names)
  from Cons.prems obtain n L1 where
    g: "getOrCreateVariableByName L name = Inr (n, L1)"
    and r: "load_Concat_loop L1 names (inputs @ [n]) = Inr (ns, L')"
    by (auto elim!: and_then_InrE)
  from Cons.IH [OF r] getOrCreateVariableByName_outputs [OF g] show ?case by simp
qed

lemma load_Concat_outputs:
  "load_Concat L op dict opName = Inr L' \<Longrightarrow> outputsByName L' = outputsByName L"
  unfolding load_Concat_def
  by (auto simp: createConcat_def insertNode_def dest!: load_Concat_loop_outputs
      elim!: and_then_InrE)

lemma load_Gemm_outputs:
  "load_Gemm L op dict opName = Inr L' \<Longrightarrow> outputsByName L' = outputsByName L"
  unfolding load_Gemm_def
  by (auto simp: createMatMul_def createBroadcast_def createAdd_def insertNode_def Let_def
      dest!: getOrCreateVariableByName_outputs createTranspose_outputs
      split: if_splits elim!: and_then_InrE)

lemma loadTranspose_outputs:
  "loadTranspose L op dict permArgName = Inr L' \<Longrightarrow> outputsByName L' = outputsByName L"
  unfolding loadTranspose_def
  by (auto simp: Let_def dest!: getOrCreateVariableByName_outputs createTranspose_outputs
      elim!: and_then_InrE)

lemma answer_true_InrE:
  "answer_true r = Inr (b, L') \<Longrightarrow> (r = Inr L' \<Longrightarrow> b \<Longrightarrow> P) \<Longrightarrow> P"
  by (cases r) auto

lemma loadOperator_outputs:
  assumes "loadOperator common L0 op = Inr (b, L')"
    and "\<forall>tn op d La b Lb. common tn op d La = Inr (b, Lb) \<longrightarrow> outputsByName Lb = outputsByName La"
  shows "outputsByName L' = outputsByName L0"
proof -
  from assms(1) obtain loaded L where
    c: "common (op_type op) op (loadArgumentMap op) L0 = Inr (loaded, L)"
    and r: "(if loaded then Inr (True, L)
        else
          (let opName = loadOperatorName op; dict = loadArgumentMap op; typeName = op_type op in
           if typeName = ''Constant'' then answer_true (load_Constant L op dict)
           else if typeName = ''Conv'' then answer_true (load_Conv L op dict opName)
           else if typeName = ''MaxPool'' \<or> typeName = ''AveragePool''
             then answer_true (load_Pool L op dict opName typeName)
           else if typeName = ''GlobalAveragePool''
             then answer_true (load_GlobalAveragePool L op dict opName)
           else if typeName = ''Squeeze'' then answer_true (load_Squeeze L op dict opName)
           else if typeName = ''Unsqueeze'' then answer_true (load_Unsqueeze L op dict opName)
           else if typeName = ''Dropout'' then answer_true (load_Dropout L op)
           else if typeName = ''BatchNormalization''
             then answer_true (load_BatchNormalization L op dict opName)
           else if typeName = ''Concat'' then answer_true (load_Concat L op dict opName)
           else if typeName = ''Gemm'' then answer_true (load_Gemm L op dict opName)
           else if typeName = ''Transpose'' then answer_true (loadTranspose L op dict ''perm'')
           else Inr (False, L))) = Inr (b, L')"
    unfolding loadOperator_def Let_def by (auto elim!: and_then_InrE)
  from c assms(2) have o: "outputsByName L = outputsByName L0" by blast
  from r have "outputsByName L' = outputsByName L"
    unfolding Let_def
    by (auto split: if_splits elim!: answer_true_InrE
        dest: load_Constant_outputs load_Conv_outputs load_Pool_outputs
        load_GlobalAveragePool_outputs load_Squeeze_outputs load_Unsqueeze_outputs
        load_Dropout_outputs load_BatchNormalization_outputs load_Concat_outputs
        load_Gemm_outputs loadTranspose_outputs)
  with o show ?thesis by simp
qed

lemma loadOperator_unsupported:
  "op_type op \<notin> set onnx_operators \<Longrightarrow>
   common (op_type op) op (loadArgumentMap op) L0 = Inr (False, L) \<Longrightarrow>
   loadOperator common L0 op = Inr (False, L)"
  by (simp add: loadOperator_def onnx_operators_def Let_def)

lemma loadOperator_false:
  assumes "loadOperator common L0 op = Inr (False, L)"
  shows "common (op_type op) op (loadArgumentMap op) L0 = Inr (False, L) \<and>
         op_type op \<notin> set onnx_operators"
  using assms unfolding loadOperator_def Let_def onnx_operators_def
  by (auto split: if_splits elim!: and_then_InrE answer_true_InrE)

lemma loadNetwork_loop_append:
  "loadNetwork_loop common L pre = Inr (True, L1) \<Longrightarrow>
   loadNetwork_loop common L (pre @ rest) = loadNetwork_loop common L1 rest"
proof (induction pre arbitrary: L)
  case Nil
  then show ?case by simp
next
  case (Cons op pre)
  from Cons.prems obtain ok La where
    o: "loadOperator common L op = Inr (ok, La)"
    and r: "(if \<not> ok then Inr (False, unexpectedNodeError La op ''Unsupported operator.'')
             else loadNetwork_loop common La pre) = Inr (True, L1)"
    by (auto elim!: and_then_InrE)
  from r have ok: ok and r': "loadNetwork_loop common La pre = Inr (True, L1)"
    by (auto split: if_splits)
  from Cons.IH [OF r'] o ok show ?case by simp
qed

lemma loadNetwork_loop_outputs:
  assumes "\<forall>tn op d La b Lb. common tn op d La = Inr (b, Lb) \<longrightarrow> outputsByName Lb = outputsByName La"
  shows "loadNetwork_loop common L ops = Inr (b, L') \<Longrightarrow> outputsByName L' = outputsByName L"
proof (induction ops arbitrary: L)
  case Nil
  then show ?case by simp
next
  case (Cons op ops)
  from Cons.prems obtain ok La where
    o: "loadOperator common L op = Inr (ok, La)"
    and r: "(if \<not> ok then Inr (False, unexpectedNodeError La op ''Unsupported operator.'')
             else loadNetwork_loop common La ops) = Inr (b, L')"
    by (auto elim!: and_then_InrE)
  have a: "outputsByName La = outputsByName L"
    using loadOperator_outputs [OF o assms] .
  show ?case
  proof (cases ok)
    case True
    with r have "loadNetwork_loop common La ops = Inr (b, L')" by simp
    from Cons.IH [OF this] a show ?thesis by simp
  next
    case False
    with r a show ?thesis by (auto simp: unexpectedNodeError_def)
  qed
qed

subsection \<open>Pre-bound tensors and initializers\<close>

lemma loadInitializers_loop_frame:
  "loadInitializers_loop L ts = Inr L' \<Longrightarrow> L' = L\<lparr>tensors := tensors L'\<rparr>"
proof (induction ts arbitrary: L)
  case Nil
  then show ?case by simp
next
  case (Cons t ts)
  from Cons.prems obtain T where
    r: "loadInitializers_loop (L\<lparr>tensors := (tensors L)(tensor_name t \<mapsto> T)\<rparr>) ts = Inr L'"
    by (auto elim!: and_then_InrE)
  from Cons.IH [OF r] show ?case by simp
qed

lemma loadInitializers_loop_other:
  "loadInitializers_loop L ts = Inr L' \<Longrightarrow> name \<notin> tensor_name ` set ts \<Longrightarrow>
   tensors L' name = tensors L name"
proof (induction ts arbitrary: L)
  case Nil
  then show ?case by simp
next
  case (Cons t ts)
  from Cons.prems(1) obtain T where
    r: "loadInitializers_loop (L\<lparr>tensors := (tensors L)(tensor_name t \<mapsto> T)\<rparr>) ts = Inr L'"
    by (auto elim!: and_then_InrE)
  from Cons.IH [OF r] Cons.prems(2) show ?case by simp
qed

lemma loadInitializers_loop_last:
  "loadInitializers_loop L (pre @ t # post) = Inr L' \<Longrightarrow>
   tensor_name t \<notin> tensor_name ` set post \<Longrightarrow>
   \<exists>T. loadTensor t = Inr T \<and> tensors L' (tensor_name t) = Some T"
proof (induction pre arbitrary: L)
  case Nil
  from Nil.prems(1) obtain T where
    t: "loadTensor t = Inr T"
    and r: "loadInitializers_loop (L\<lparr>tensors := (tensors L)(tensor_name t \<mapsto> T)\<rparr>) post = Inr L'"
    by (auto elim!: and_then_InrE)
  from loadInitializers_loop_other [OF r Nil.prems(2)] t show ?case by simp
next
  case (Cons p pre)
  from Cons.prems(1) obtain T where
    r: "loadInitializers_loop (L\<lparr>tensors := (tensors L)(tensor_name p \<mapsto> T)\<rparr>) (pre @ t # post) =
        Inr L'"
    by (auto elim!: and_then_InrE)
  from Cons.IH [OF r Cons.prems(2)] show ?case .
qed

lemma loadOperator_Constant:
  "op_type op = ''Constant'' \<Longrightarrow>
   common (op_type op) op (loadArgumentMap op) L0 = Inr (False, L) \<Longrightarrow>
   loadOperator common L0 op = answer_true (load_Constant L op (loadArgumentMap op))"
  by (simp add: loadOperator_def Let_def)

text \<open>
  What the code does with a name that is in the tensor table. Lowering a Constant node
  whose output has that name leaves the loader as it is. \<open>loadInitializers\<close> leaves the
  entries of the names that no initializer has, and stores under the name of an
  initializer the tensor materialized from the last initializer of that name, whatever
  the table held.
\<close>

theorem prebound_names:
  "(op_type op = ''Constant'' \<and> common (op_type op) op (loadArgumentMap op) L0 = Inr (False, L) \<and>
    node_output op = name # rest \<and> tensors L name = Some T \<longrightarrow>
      loadOperator common L0 op = Inr (True, L)) \<and>
   (loadInitializers L net = Inr L' \<and> name \<notin> tensor_name ` set (initializer net) \<longrightarrow>
      tensors L' name = tensors L name) \<and>
   (loadInitializers L net = Inr L' \<and> initializer net = pre @ t # post \<and>
    tensor_name t \<notin> tensor_name ` set post \<longrightarrow>
      (\<exists>T'. loadTensor t = Inr T' \<and> tensors L' (tensor_name t) = Some T'))"
proof (intro conjI impI)
  assume a: "op_type op = ''Constant'' \<and>
    common (op_type op) op (loadArgumentMap op) L0 = Inr (False, L) \<and>
    node_output op = name # rest \<and> tensors L name = Some T"
  then have "loadOperator common L0 op = answer_true (load_Constant L op (loadArgumentMap op))"
    using loadOperator_Constant [of op common L0 L] by blast
  moreover from a have "load_Constant L op (loadArgumentMap op) = Inr L"
    by (simp add: load_Constant_def at_def)
  ultimately show "loadOperator common L0 op = Inr (True, L)" by simp
next
  assume "loadInitializers L net = Inr L' \<and> name \<notin> tensor_name ` set (initializer net)"
  then show "tensors L' name = tensors L name"
    using loadInitializers_loop_other [of L "initializer net" L' name]
    by (auto simp: loadInitializers_def)
next
  assume "loadInitializers L net = Inr L' \<and> initializer net = pre @ t # post \<and>
    tensor_name t \<notin> tensor_name ` set post"
  then show "\<exists>T'. loadTensor t = Inr T' \<and> tensors L' (tensor_name t) = Some T'"
    using loadInitializers_loop_last [of L pre t post L']
    by (auto simp: loadInitializers_def)
qed

lemma loadTensor_initializer_record:
  "loadTensor (initializer_record name) = Inr \<lparr>tensor_dims = [1], payload = FloatData [0x40000000]\<rparr>"
proof -
  have "tensor_size [1] = Suc 0"
    by (simp add: tensor_size_def)
  then show ?thesis
    by (simp add: initializer_record_def float_record_def loadTensor_def reset_def Let_def)
qed

lemma tensor_name_initializer_record:
  "tensor_name (initializer_record name) = name"
  by (simp add: initializer_record_def)

theorem prebound_names_witness:
  "loadOperator no_common prebound_loader constant_node = Inr (True, prebound_loader) \<and>
   loadInitializers prebound_loader (initializer_graph ''Y'') =
     Inr (prebound_loader\<lparr>tensors :=
       [''X'' \<mapsto> caller_tensor,
        ''Y'' \<mapsto> \<lparr>tensor_dims = [1], payload = FloatData [0x40000000]\<rparr>]\<rparr>) \<and>
   tensors (prebound_loader\<lparr>tensors :=
       [''X'' \<mapsto> caller_tensor,
        ''Y'' \<mapsto> \<lparr>tensor_dims = [1], payload = FloatData [0x40000000]\<rparr>]\<rparr>) ''X'' =
     tensors prebound_loader ''X'' \<and>
   (\<exists>T'. loadTensor (initializer_record ''X'') = Inr T' \<and>
      tensors (prebound_loader\<lparr>tensors :=
        [''X'' \<mapsto> \<lparr>tensor_dims = [1], payload = FloatData [0x40000000]\<rparr>]\<rparr>) ''X'' = Some T')"
proof -
  have y: "loadInitializers prebound_loader (initializer_graph ''Y'') =
     Inr (prebound_loader\<lparr>tensors :=
       [''X'' \<mapsto> caller_tensor,
        ''Y'' \<mapsto> \<lparr>tensor_dims = [1], payload = FloatData [0x40000000]\<rparr>]\<rparr>)"
    by (simp add: prebound_loader_def loadInitializers_def initializer_graph_def empty_graph_def
        loadTensor_initializer_record tensor_name_initializer_record)
  have x: "loadInitializers prebound_loader (initializer_graph ''X'') =
     Inr (prebound_loader\<lparr>tensors :=
       [''X'' \<mapsto> \<lparr>tensor_dims = [1], payload = FloatData [0x40000000]\<rparr>]\<rparr>)"
    by (simp add: prebound_loader_def loadInitializers_def initializer_graph_def empty_graph_def
        loadTensor_initializer_record tensor_name_initializer_record)
  show ?thesis
    using prebound_names [where op = constant_node and common = no_common
        and ?L0.0 = prebound_loader and L = prebound_loader and name = "''X''" and rest = "[]"
        and T = caller_tensor and net = "initializer_graph ''Y''"
        and L' = "prebound_loader\<lparr>tensors :=
          [''X'' \<mapsto> caller_tensor,
           ''Y'' \<mapsto> \<lparr>tensor_dims = [1], payload = FloatData [0x40000000]\<rparr>]\<rparr>"
        and pre = "[]" and t = "initializer_record ''Y''" and post = "[]"]
      prebound_names [where net = "initializer_graph ''X''" and L = prebound_loader
        and L' = "prebound_loader\<lparr>tensors :=
          [''X'' \<mapsto> \<lparr>tensor_dims = [1], payload = FloatData [0x40000000]\<rparr>]\<rparr>"
        and pre = "[]" and t = "initializer_record ''X''" and post = "[]" and name = "''Z''"]
      x y
    by (simp add: no_common_def constant_node_def prebound_loader_def initializer_graph_def
        empty_graph_def tensor_name_initializer_record loadTensor_initializer_record)
qed

text \<open>
  C2. A name that the caller has pre-bound is not to be overwritten by an initializer of
  the same name. \<open>loadInitializers\<close> does overwrite it: with the tensor \<open>caller_tensor\<close>
  pre-bound under \<open>X\<close>, loading a model whose initializer list defines \<open>X\<close> replaces the
  table entry by the tensor of the initializer.
\<close>

theorem loadInitializers_replaces_prebound:
  "CommonOperatorLoader [''X''] [caller_tensor] \<lparr>nodes = [], vars = []\<rparr> = Inr prebound_loader \<and>
   tensors prebound_loader ''X'' = Some caller_tensor \<and>
   loadInitializers prebound_loader (initializer_graph ''X'') =
     Inr (prebound_loader\<lparr>tensors :=
       [''X'' \<mapsto> \<lparr>tensor_dims = [1], payload = FloatData [0x40000000]\<rparr>]\<rparr>) \<and>
   caller_tensor \<noteq> \<lparr>tensor_dims = [1], payload = FloatData [0x40000000]\<rparr>"
  by (simp add: CommonOperatorLoader_def prebound_loader_def loadInitializers_def
      initializer_graph_def empty_graph_def loadTensor_initializer_record caller_tensor_def
      tensor_name_initializer_record)

subsection \<open>Unsupported operators\<close>

lemma setVersion_outputs:
  "setVersion L MP = Inr L' \<Longrightarrow> outputsByName L' = outputsByName L"
  by (auto simp: setVersion_def Let_def split: if_splits)

lemma loadProto_file_outputs:
  "loadProto_file L ff = Inr (ok, net, L') \<Longrightarrow> outputsByName L' = outputsByName L"
  by (auto simp: loadProto_file_def loadProto_def Let_def split: option.splits
      dest: setVersion_outputs elim!: and_then_InrE)

lemma CommonOperatorLoader_outputs:
  "CommonOperatorLoader tensorNames ts F = Inr L \<Longrightarrow> outputsByName L = Map.empty"
  by (auto simp: CommonOperatorLoader_def split: if_splits)

text \<open>
  C5. When the nodes before \<open>n\<close> are loaded and the operator type of \<open>n\<close> is neither one
  of the common operators nor one of \<open>onnx_operators\<close>, \<open>loadNetwork\<close> answers false after
  printing the message \<open>Unsupported operator.\<close> with the node \<open>n\<close>, whatever nodes follow
  \<open>n\<close>; the constructor from a file then returns without calling \<open>setOutputNodes\<close>, so
  that no output is bound, and \<open>parse\<close> returns the null pointer.
\<close>

theorem unsupported_operator_aborts:
  assumes "node net = pre @ n # post"
    and "loadNetwork_loop common L pre = Inr (True, L1)"
    and "op_type n \<notin> set onnx_operators"
    and "common (op_type n) n (loadArgumentMap n) L1 = Inr (False, L2)"
  shows "loadNetwork common L net =
       Inr (False, unexpectedNodeError L2 n ''Unsupported operator.'') \<and>
     outs (unexpectedNodeError L2 n ''Unsupported operator.'') =
       outs L2 @ [(''Unsupported operator.'', n)] \<and>
     (\<forall>modelDescFile tensorNames ts F La ok Lb.
        CommonOperatorLoader tensorNames ts F = Inr La \<and>
        loadProto_file La modelDescFile = Inr (ok, net, Lb) \<and>
        loadInitializers Lb net = Inr L \<longrightarrow>
          ONNXModelLoader common modelDescFile tensorNames ts F =
            Inr (unexpectedNodeError L2 n ''Unsupported operator.'') \<and>
          ((\<forall>tn op d Lc b Ld. common tn op d Lc = Inr (b, Ld) \<longrightarrow>
              outputsByName Ld = outputsByName Lc) \<longrightarrow>
           outputsByName (unexpectedNodeError L2 n ''Unsupported operator.'') = Map.empty)) \<and>
     (\<forall>MP F La Lb.
        CommonOperatorLoader [] [] F = Inr La \<and>
        loadProto La (True, MP) = Inr (True, net, Lb) \<and>
        loadInputs Lb net = Inr L \<longrightarrow>
          parse common (True, MP) F = Inr None)"
proof -
  have n: "loadOperator common L1 n = Inr (False, L2)"
    using assms(3,4) by (rule loadOperator_unsupported)
  have net: "loadNetwork common L net =
       Inr (False, unexpectedNodeError L2 n ''Unsupported operator.'')"
    using loadNetwork_loop_append [OF assms(2), of "n # post"] assms(1) n
    by (simp add: loadNetwork_def)
  have outs: "outs (unexpectedNodeError L2 n ''Unsupported operator.'') =
       outs L2 @ [(''Unsupported operator.'', n)]"
    by (simp add: unexpectedNodeError_def)
  have ctor: "ONNXModelLoader common modelDescFile tensorNames ts F =
            Inr (unexpectedNodeError L2 n ''Unsupported operator.'')"
    if "CommonOperatorLoader tensorNames ts F = Inr La"
      and "loadProto_file La modelDescFile = Inr (ok, net, Lb)"
      and "loadInitializers Lb net = Inr L"
    for modelDescFile tensorNames ts F La ok Lb
    using that net by (simp add: ONNXModelLoader_def)
  have none: "outputsByName (unexpectedNodeError L2 n ''Unsupported operator.'') = Map.empty"
    if "CommonOperatorLoader tensorNames ts F = Inr La"
      and "loadProto_file La modelDescFile = Inr (ok, net, Lb)"
      and "loadInitializers Lb net = Inr L"
      and fr: "\<forall>tn op d Lc b Ld. common tn op d Lc = Inr (b, Ld) \<longrightarrow>
              outputsByName Ld = outputsByName Lc"
    for modelDescFile tensorNames ts F La ok Lb
  proof -
    have "outputsByName La = Map.empty"
      using that(1) by (rule CommonOperatorLoader_outputs)
    moreover have "outputsByName Lb = outputsByName La"
      using that(2) by (rule loadProto_file_outputs)
    moreover have "outputsByName L = outputsByName Lb"
      using loadInitializers_loop_frame [of Lb "initializer net" L] that(3)
      by (metis Loader.select_convs(5) Loader.surjective Loader.update_convs(3)
          loadInitializers_def)
    moreover have "outputsByName L1 = outputsByName L"
      using loadNetwork_loop_outputs [OF fr assms(2)] .
    moreover have "outputsByName L2 = outputsByName L1"
      using fr assms(4) by blast
    ultimately show ?thesis by (simp add: unexpectedNodeError_def)
  qed
  have prs: "parse common (True, MP) F = Inr None"
    if "CommonOperatorLoader [] [] F = Inr La"
      and "loadProto La (True, MP) = Inr (True, net, Lb)"
      and "loadInputs Lb net = Inr L"
    for MP F La Lb
    using that net by (simp add: parse_def)
  from net outs ctor none prs show ?thesis by blast
qed

lemma loadNetwork_loop_dropout:
  "loadNetwork_loop no_common (seeded_loader T) [dropout_node] = Inr (True, dropped_loader T)"
proof -
  have "getOrCreateVariableByName (seeded_loader T) ''x'' =
     Inr (Variable ''x'' T, with_variable (seeded_loader T) ''x'' T)"
    by (rule getOrCreateVariableByName_new) (simp_all add: seeded_loader_def loader_at_opset_def)
  then have "load_Dropout (seeded_loader T) dropout_node = Inr (dropped_loader T)"
    by (simp add: load_Dropout_def dropped_loader_def at_def dropout_node_def)
  moreover have "loadOperator no_common (seeded_loader T) dropout_node =
     answer_true (load_Dropout (seeded_loader T) dropout_node)"
    by (simp add: loadOperator_def no_common_def dropout_node_def Let_def)
  ultimately show ?thesis by simp
qed

theorem unsupported_operator_aborts_witness:
  "ONNXModelLoader no_common (Some (True, unsupported_model)) [] [] \<lparr>nodes = [], vars = []\<rparr> =
     Inr (unexpectedNodeError
       (dropped_loader \<lparr>tensor_dims = [1], payload = FloatData [0x40000000]\<rparr>) upsample_node
       ''Unsupported operator.'') \<and>
   outputsByName (unexpectedNodeError
       (dropped_loader \<lparr>tensor_dims = [1], payload = FloatData [0x40000000]\<rparr>) upsample_node
       ''Unsupported operator.'') = Map.empty \<and>
   outs (unexpectedNodeError
       (dropped_loader \<lparr>tensor_dims = [1], payload = FloatData [0x40000000]\<rparr>) upsample_node
       ''Unsupported operator.'') = [(''Unsupported operator.'', upsample_node)] \<and>
   parse no_common (True, unsupported_model) \<lparr>nodes = [], vars = []\<rparr> = Inr None"
proof -
  let ?T = "\<lparr>tensor_dims = [1], payload = FloatData [0x40000000]\<rparr>"
  let ?La = "\<lparr>irVersion = 0, opsetVersion = 0, tensors = Map.empty, nodeByName = Map.empty,
      outputsByName = Map.empty, G = \<lparr>nodes = [], vars = []\<rparr>, outs = []\<rparr>"
  have h1: "node unsupported_graph = [dropout_node] @ upsample_node # [conv_node]"
    by (simp add: unsupported_graph_def)
  have h3: "op_type upsample_node \<notin> set onnx_operators"
    by (simp add: upsample_node_def onnx_operators_def)
  have h4: "no_common (op_type upsample_node) upsample_node (loadArgumentMap upsample_node)
      (dropped_loader T) = Inr (False, dropped_loader T)" for T
    by (simp add: no_common_def)
  have fr: "\<forall>tn op d Lc b Ld. no_common tn op d Lc = Inr (b, Ld) \<longrightarrow>
      outputsByName Ld = outputsByName Lc"
    by (simp add: no_common_def)
  have a: "CommonOperatorLoader [] [] \<lparr>nodes = [], vars = []\<rparr> = Inr ?La"
    by (simp add: CommonOperatorLoader_def)
  have b: "loadProto ?La (True, unsupported_model) =
      Inr (True, unsupported_graph, loader_at_opset 7)"
    by (simp add: loadProto_def setVersion_def unsupported_model_def loader_at_opset_def Let_def)
  then have b': "loadProto_file ?La (Some (True, unsupported_model)) =
      Inr (True, unsupported_graph, loader_at_opset 7)"
    by (simp add: loadProto_file_def)
  have c: "loadInitializers (loader_at_opset 7) unsupported_graph = Inr (seeded_loader ?T)"
    by (simp add: loadInitializers_def unsupported_graph_def loadTensor_initializer_record
        tensor_name_initializer_record seeded_loader_def loader_at_opset_def)
  have "tensor_size [1] = Suc 0"
    by (simp add: tensor_size_def)
  then have d: "loadInputs (loader_at_opset 7) unsupported_graph =
      Inr (seeded_loader \<lparr>tensor_dims = [1], payload = FloatData [0]\<rparr>)"
    by (simp add: loadInputs_def unsupported_graph_def loadShape_def reset_def seeded_loader_def
        loader_at_opset_def)
  note t = unsupported_operator_aborts [OF h1 loadNetwork_loop_dropout h3 h4]
  have "ONNXModelLoader no_common (Some (True, unsupported_model)) [] [] \<lparr>nodes = [], vars = []\<rparr> =
     Inr (unexpectedNodeError (dropped_loader ?T) upsample_node ''Unsupported operator.'') \<and>
     outputsByName (unexpectedNodeError (dropped_loader ?T) upsample_node
       ''Unsupported operator.'') = Map.empty"
    using t [of ?T, THEN conjunct2, THEN conjunct2, THEN conjunct1, rule_format,
        OF conjI [OF a conjI [OF b' c]]] fr
    by blast
  moreover have "outs (unexpectedNodeError (dropped_loader ?T) upsample_node
       ''Unsupported operator.'') = [(''Unsupported operator.'', upsample_node)]"
    by (simp add: unexpectedNodeError_def dropped_loader_def addNodeAsOutput_def
        with_variable_def seeded_loader_def loader_at_opset_def)
  moreover have "parse no_common (True, unsupported_model) \<lparr>nodes = [], vars = []\<rparr> = Inr None"
    using t [of "\<lparr>tensor_dims = [1], payload = FloatData [0]\<rparr>", THEN conjunct2,
        THEN conjunct2, THEN conjunct2, rule_format, OF conjI [OF a conjI [OF b d]]] .
  ultimately show ?thesis by simp
qed

end
